theory Spec2Isabelle
  imports Main
begin

section \<open>The Vault client library (lib/charms/vault\_k8s/v0/vault\_client.py)\<close>

text \<open>
  The library is a class \<open>Vault\<close> whose methods each make one or a few calls on an
  \<open>hvac.Client\<close> and translate the answer. The embedding keeps that shape: the client
  is a record of operations over a world \<open>'w\<close> (whatever stands behind the client),
  every operation returns either the exception it raised or its value together with the
  new world, and every method of \<open>Vault\<close> is a function over the client and a state
  made of the world and the records written to the module's logger.
\<close>

subsection \<open>Exceptions\<close>

text \<open>
  The exceptions the source names (\<open>InvalidRequest\<close>, \<open>InvalidPath\<close> and their base
  class \<open>VaultError\<close> from \<open>hvac.exceptions\<close>, \<open>RequestException\<close> from
  \<open>requests\<close>) and the two that Python raises on a subscript (\<open>KeyError\<close>,
  \<open>TypeError\<close>). An exception of the client carries the text that \<open>str(e)\<close>
  gives, which is what the source writes to the log. A \<open>KeyError\<close> carries the key
  and a \<open>TypeError\<close> a short description: the source never formats either, and
  their text is not Python's message. The constructor \<open>VaultError\<close> stands for the
  base class and its other subclasses.
\<close>

datatype exn =
    InvalidRequest string
  | InvalidPath string
  | VaultError string
  | RequestException string
  | KeyError string
  | TypeError string

fun exn_str :: "exn \<Rightarrow> string" where
  "exn_str (InvalidRequest m) = m"
| "exn_str (InvalidPath m) = m"
| "exn_str (VaultError m) = m"
| "exn_str (RequestException m) = m"
| "exn_str (KeyError m) = m"
| "exn_str (TypeError m) = m"

text \<open>\<open>except InvalidRequest\<close>: the class itself.\<close>

fun is_InvalidRequest :: "exn \<Rightarrow> bool" where
  "is_InvalidRequest (InvalidRequest m) = True"
| "is_InvalidRequest e = False"

text \<open>\<open>except VaultError\<close>: the base class and every subclass of it.\<close>

fun is_VaultError :: "exn \<Rightarrow> bool" where
  "is_VaultError (InvalidRequest m) = True"
| "is_VaultError (InvalidPath m) = True"
| "is_VaultError (VaultError m) = True"
| "is_VaultError e = False"

fun is_RequestException :: "exn \<Rightarrow> bool" where
  "is_RequestException (RequestException m) = True"
| "is_RequestException e = False"

subsection \<open>Python values\<close>

text \<open>
  The client answers with parsed JSON. A dictionary is an association list (a Python
  dictionary has distinct keys); a \<open>char\<close> stands for one character of a Python
  \<open>str\<close>.
\<close>

datatype pyval =
    PyNone
  | PyBool bool
  | PyInt int
  | PyStr string
  | PyList "pyval list"
  | PyDict "(string \<times> pyval) list"

text \<open>\<open>v[k]\<close> with a string key: only a dictionary has one, and only for a key it holds.\<close>

fun getitem :: "pyval \<Rightarrow> string \<Rightarrow> exn + pyval" where
  "getitem (PyDict kvs) k =
     (case map_of kvs k of None \<Rightarrow> Inl (KeyError k) | Some v \<Rightarrow> Inr v)"
| "getitem v k = Inl (TypeError ''object is not subscriptable by str'')"

text \<open>\<open>v[k1][k2]...\<close>: the subscripts one after the other, the first failure raised.\<close>

fun getpath :: "pyval \<Rightarrow> string list \<Rightarrow> exn + pyval" where
  "getpath v [] = Inr v"
| "getpath v (k # ks) = (case getitem v k of Inl e \<Rightarrow> Inl e | Inr v' \<Rightarrow> getpath v' ks)"

text \<open>\<open>for x in v\<close>: the values a loop over \<open>v\<close> visits.\<close>

fun py_iter :: "pyval \<Rightarrow> exn + pyval list" where
  "py_iter (PyList xs) = Inr xs"
| "py_iter (PyDict kvs) = Inr (map (\<lambda>kv. PyStr (fst kv)) kvs)"
| "py_iter (PyStr s) = Inr (map (\<lambda>ch. PyStr [ch]) s)"
| "py_iter v = Inl (TypeError ''object is not iterable'')"

text \<open>\<open>len(v)\<close>.\<close>

fun py_len :: "pyval \<Rightarrow> exn + int" where
  "py_len (PyList xs) = Inr (int (length xs))"
| "py_len (PyDict kvs) = Inr (int (length kvs))"
| "py_len (PyStr s) = Inr (int (length s))"
| "py_len v = Inl (TypeError ''object has no len()'')"

text \<open>A \<open>requests.Response\<close>: the status code and the body.\<close>

record response =
  status_code :: int
  content :: string

subsection \<open>The client\<close>

text \<open>
  The operations of \<open>hvac.Client\<close> that the modelled methods call, by their place in
  the client (\<open>client.sys\<close>, \<open>client.secrets.pki\<close>, \<open>client.adapter\<close>) and with the
  arguments the source passes. The client library itself is not part of the repository:
  it is a parameter of every method. An answer the source subscripts is a Python value,
  one whose \<open>status_code\<close> it reads or that it hands back is a response, and the
  answer of \<open>is_sealed\<close>, which the source only tests, is a truth value.
\<close>

record 'w client =
  sys_read_health_status :: "bool \<Rightarrow> 'w \<Rightarrow> (exn + response) \<times> 'w"
  sys_initialize :: "int \<Rightarrow> int \<Rightarrow> 'w \<Rightarrow> (exn + pyval) \<times> 'w"
  sys_submit_unseal_key :: "string \<Rightarrow> 'w \<Rightarrow> (exn + pyval) \<times> 'w"
  sys_is_sealed :: "'w \<Rightarrow> (exn + bool) \<times> 'w"
  sys_enable_audit_device :: "string \<Rightarrow> (string \<times> string) list \<Rightarrow> 'w \<Rightarrow> (exn + pyval) \<times> 'w"
  sys_enable_auth_method :: "string \<Rightarrow> 'w \<Rightarrow> (exn + pyval) \<times> 'w"
  sys_enable_secrets_engine :: "string \<Rightarrow> string \<Rightarrow> string \<Rightarrow> 'w \<Rightarrow> (exn + pyval) \<times> 'w"
  pki_read_ca_certificate :: "string \<Rightarrow> 'w \<Rightarrow> (exn + pyval) \<times> 'w"
  pki_sign_certificate :: "string \<Rightarrow> string \<Rightarrow> string \<Rightarrow> string \<Rightarrow> 'w \<Rightarrow> (exn + pyval) \<times> 'w"
  sys_take_raft_snapshot :: "'w \<Rightarrow> (exn + response) \<times> 'w"
  sys_force_restore_raft_snapshot :: "string \<Rightarrow> 'w \<Rightarrow> (exn + response) \<times> 'w"
  adapter_get :: "string \<Rightarrow> 'w \<Rightarrow> (exn + pyval) \<times> 'w"
  sys_remove_raft_node :: "string \<Rightarrow> 'w \<Rightarrow> (exn + pyval) \<times> 'w"
  sys_read_raft_config :: "'w \<Rightarrow> (exn + pyval) \<times> 'w"

subsection \<open>State: the world behind the client, and the logger\<close>

datatype level = DEBUG | INFO | WARNING | ERROR

record 'w vault =
  world :: 'w
  logged :: "(level \<times> string) list"

text \<open>One call on the client: the world moves, the log stays.\<close>

definition call :: "('w \<Rightarrow> (exn + 'a) \<times> 'w) \<Rightarrow> 'w vault \<Rightarrow> (exn + 'a) \<times> 'w vault" where
  "call f s = (case f (world s) of (r, w') \<Rightarrow> (r, s\<lparr>world := w'\<rparr>))"

text \<open>\<open>logger.info(...)\<close> and its siblings, with the message already formatted.\<close>

definition logger :: "level \<Rightarrow> string \<Rightarrow> 'w vault \<Rightarrow> 'w vault" where
  "logger lv msg s = s\<lparr>logged := logged s @ [(lv, msg)]\<rparr>"

subsection \<open>Enumerations and data classes\<close>

datatype AuditDeviceType = FILE | SYSLOG | SOCKET

fun AuditDeviceType_value :: "AuditDeviceType \<Rightarrow> string" where
  "AuditDeviceType_value FILE = ''file''"
| "AuditDeviceType_value SYSLOG = ''syslog''"
| "AuditDeviceType_value SOCKET = ''socket''"

datatype SecretsBackend = KV_V2 | PKI

fun SecretsBackend_value :: "SecretsBackend \<Rightarrow> string" where
  "SecretsBackend_value KV_V2 = ''kv-v2''"
| "SecretsBackend_value PKI = ''pki''"

record Certificate =
  certificate :: pyval
  ca :: pyval
  chain :: pyval

definition RAFT_STATE_ENDPOINT :: string where
  "RAFT_STATE_ENDPOINT = ''v1/sys/storage/raft/autopilot/state''"

subsection \<open>The methods of \<open>Vault\<close>\<close>


definition initialize :: "'w client \<Rightarrow> int \<Rightarrow> int \<Rightarrow> 'w vault \<Rightarrow> (exn + pyval \<times> pyval) \<times> 'w vault" where
  "initialize c secret_shares secret_threshold s =
     (case call (sys_initialize c secret_shares secret_threshold) s of
        (Inl e, s1) \<Rightarrow> (Inl e, s1)
      | (Inr initialize_response, s1) \<Rightarrow>
          (let s2 = logger INFO ''Vault is initialized'' s1 in
           case getitem initialize_response ''root_token'' of
             Inl e \<Rightarrow> (Inl e, s2)
           | Inr root_token \<Rightarrow>
               (case getitem initialize_response ''keys'' of
                  Inl e \<Rightarrow> (Inl e, s2)
                | Inr keys \<Rightarrow> (Inr (root_token, keys), s2))))"

text \<open>The loop of \<open>unseal\<close>: the first call that raises ends it.\<close>

fun submit_unseal_keys :: "'w client \<Rightarrow> string list \<Rightarrow> 'w vault \<Rightarrow> (exn + unit) \<times> 'w vault" where
  "submit_unseal_keys c [] s = (Inr (), s)"
| "submit_unseal_keys c (unseal_key # rest) s =
     (case call (sys_submit_unseal_key c unseal_key) s of
        (Inl e, s1) \<Rightarrow> (Inl e, s1)
      | (Inr r, s1) \<Rightarrow> submit_unseal_keys c rest s1)"

definition unseal :: "'w client \<Rightarrow> string list \<Rightarrow> 'w vault \<Rightarrow> (exn + unit) \<times> 'w vault" where
  "unseal c unseal_keys s =
     (case submit_unseal_keys c unseal_keys s of
        (Inr u, s1) \<Rightarrow> (Inr (), logger INFO ''Vault is unsealed'' s1)
      | (Inl e, s1) \<Rightarrow>
          if is_InvalidRequest e
          then (case call (sys_is_sealed c) s1 of
                  (Inl e', s2) \<Rightarrow> (Inl e', s2)
                | (Inr sealed, s2) \<Rightarrow> if sealed then (Inl e, s2) else (Inr (), s2))
          else (Inl e, s1))"

definition is_active :: "'w client \<Rightarrow> 'w vault \<Rightarrow> (exn + bool) \<times> 'w vault" where
  "is_active c s =
     (case call (sys_read_health_status c True) s of
        (Inr health_status, s1) \<Rightarrow> (Inr (status_code health_status = 200), s1)
      | (Inl e, s1) \<Rightarrow>
          if is_VaultError e \<or> is_RequestException e
          then (Inr False,
                logger ERROR (''Error while checking Vault health status: '' @ exn_str e) s1)
          else (Inl e, s1))"

definition enable_audit_device :: "'w client \<Rightarrow> AuditDeviceType \<Rightarrow> string \<Rightarrow> 'w vault \<Rightarrow> (exn + unit) \<times> 'w vault" where
  "enable_audit_device c device_type path s =
     (case call (sys_enable_audit_device c (AuditDeviceType_value device_type)
                   [(''file_path'', path)]) s of
        (Inr r, s1) \<Rightarrow>
          (Inr (), logger INFO (''Enabled audit device '' @ AuditDeviceType_value device_type
                                 @ '' for path '' @ path) s1)
      | (Inl e, s1) \<Rightarrow>
          if is_InvalidRequest e
          then (Inr (), logger INFO ''Audit device already enabled.'' s1)
          else (Inl e, s1))"

definition enable_approle_auth_method :: "'w client \<Rightarrow> 'w vault \<Rightarrow> (exn + unit) \<times> 'w vault" where
  "enable_approle_auth_method c s =
     (case call (sys_enable_auth_method c ''approle'') s of
        (Inr r, s1) \<Rightarrow> (Inr (), logger INFO ''Enabled approle auth method.'' s1)
      | (Inl e, s1) \<Rightarrow>
          if is_InvalidRequest e
          then (Inr (), logger INFO ''Approle already enabled.'' s1)
          else (Inl e, s1))"

definition enable_secrets_engine :: "'w client \<Rightarrow> SecretsBackend \<Rightarrow> string \<Rightarrow> 'w vault \<Rightarrow> (exn + unit) \<times> 'w vault" where
  "enable_secrets_engine c backend_type path s =
     (case call (sys_enable_secrets_engine c (SecretsBackend_value backend_type)
                   (''Charm created '' @ [CHR 0x27] @ SecretsBackend_value backend_type
                      @ [CHR 0x27] @ '' backend'')
                   path) s of
        (Inr r, s1) \<Rightarrow>
          (Inr (), logger INFO (''Enabled '' @ SecretsBackend_value backend_type @ '' backend'') s1)
      | (Inl e, s1) \<Rightarrow>
          if is_InvalidRequest e
          then (Inr (), logger INFO (SecretsBackend_value backend_type
                                     @ '' backend already enabled'') s1)
          else (Inl e, s1))"

definition is_intermediate_ca_set :: "'w client \<Rightarrow> string \<Rightarrow> string \<Rightarrow> 'w vault \<Rightarrow> (exn + bool) \<times> 'w vault" where
  "is_intermediate_ca_set c mount cert s =
     (case call (pki_read_ca_certificate c mount) s of
        (Inl e, s1) \<Rightarrow> (Inl e, s1)
      | (Inr intermediate_ca, s1) \<Rightarrow> (Inr (intermediate_ca = PyStr cert), s1))"

definition sign_pki_certificate_signing_request ::
  "'w client \<Rightarrow> string \<Rightarrow> string \<Rightarrow> string \<Rightarrow> string \<Rightarrow> 'w vault \<Rightarrow> (exn + Certificate option) \<times> 'w vault" where
  "sign_pki_certificate_signing_request c mount role csr common_name s =
     (case call (pki_sign_certificate c csr mount common_name role) s of
        (Inl e, s1) \<Rightarrow>
          if is_InvalidRequest e
          then (Inr None, logger WARNING (''Error while signing PKI certificate: '' @ exn_str e) s1)
          else (Inl e, s1)
      | (Inr resp, s1) \<Rightarrow>
          (let s2 = logger INFO (''Signed a PKI certificate for '' @ common_name) s1 in
           case getpath resp [''data'', ''certificate''] of
             Inl e \<Rightarrow> (Inl e, s2)
           | Inr crt \<Rightarrow>
               (case getpath resp [''data'', ''issuing_ca''] of
                  Inl e \<Rightarrow> (Inl e, s2)
                | Inr issuing \<Rightarrow>
                    (case getpath resp [''data'', ''ca_chain''] of
                       Inl e \<Rightarrow> (Inl e, s2)
                     | Inr ca_chain \<Rightarrow>
                         (Inr (Some \<lparr>certificate = crt, ca = issuing, chain = ca_chain\<rparr>),
                          s2)))))"

definition is_pki_ca_certificate_set :: "'w client \<Rightarrow> string \<Rightarrow> string \<Rightarrow> 'w vault \<Rightarrow> (exn + bool) \<times> 'w vault" where
  "is_pki_ca_certificate_set c mount cert s =
     (case call (pki_read_ca_certificate c mount) s of
        (Inl e, s1) \<Rightarrow> (Inl e, s1)
      | (Inr existing_certificate, s1) \<Rightarrow> (Inr (existing_certificate = PyStr cert), s1))"

definition create_snapshot :: "'w client \<Rightarrow> 'w vault \<Rightarrow> (exn + response) \<times> 'w vault" where
  "create_snapshot c s = call (sys_take_raft_snapshot c) s"

definition restore_snapshot :: "'w client \<Rightarrow> string \<Rightarrow> 'w vault \<Rightarrow> (exn + response) \<times> 'w vault" where
  "restore_snapshot c snapshot s = call (sys_force_restore_raft_snapshot c snapshot) s"

definition get_raft_cluster_state :: "'w client \<Rightarrow> 'w vault \<Rightarrow> (exn + pyval) \<times> 'w vault" where
  "get_raft_cluster_state c s =
     (case call (adapter_get c RAFT_STATE_ENDPOINT) s of
        (Inl e, s1) \<Rightarrow> (Inl e, s1)
      | (Inr resp, s1) \<Rightarrow> (getitem resp ''data'', s1))"

definition is_raft_cluster_healthy :: "'w client \<Rightarrow> 'w vault \<Rightarrow> (exn + pyval) \<times> 'w vault" where
  "is_raft_cluster_healthy c s =
     (case get_raft_cluster_state c s of
        (Inl e, s1) \<Rightarrow> (Inl e, s1)
      | (Inr st, s1) \<Rightarrow> (getitem st ''healthy'', s1))"

definition remove_raft_node :: "'w client \<Rightarrow> string \<Rightarrow> 'w vault \<Rightarrow> (exn + unit) \<times> 'w vault" where
  "remove_raft_node c node_id s =
     (case call (sys_remove_raft_node c node_id) s of
        (Inl e, s1) \<Rightarrow> (Inl e, s1)
      | (Inr r, s1) \<Rightarrow> (Inr (), logger INFO (''Removed raft node '' @ node_id) s1))"

text \<open>The loop of \<open>is_node_in_raft_peers\<close>: the first peer that matches ends it.\<close>

fun scan_peers :: "pyval list \<Rightarrow> string \<Rightarrow> exn + bool" where
  "scan_peers [] node_id = Inr False"
| "scan_peers (peer # rest) node_id =
     (case getitem peer ''node_id'' of
        Inl e \<Rightarrow> Inl e
      | Inr v \<Rightarrow> if v = PyStr node_id then Inr True else scan_peers rest node_id)"

definition is_node_in_raft_peers :: "'w client \<Rightarrow> string \<Rightarrow> 'w vault \<Rightarrow> (exn + bool) \<times> 'w vault" where
  "is_node_in_raft_peers c node_id s =
     (case call (sys_read_raft_config c) s of
        (Inl e, s1) \<Rightarrow> (Inl e, s1)
      | (Inr raft_config, s1) \<Rightarrow>
          (case getpath raft_config [''data'', ''config'', ''servers''] of
             Inl e \<Rightarrow> (Inl e, s1)
           | Inr servers \<Rightarrow>
               (case py_iter servers of
                  Inl e \<Rightarrow> (Inl e, s1)
                | Inr peers \<Rightarrow> (scan_peers peers node_id, s1))))"

definition get_num_raft_peers :: "'w client \<Rightarrow> 'w vault \<Rightarrow> (exn + int) \<times> 'w vault" where
  "get_num_raft_peers c s =
     (case call (sys_read_raft_config c) s of
        (Inl e, s1) \<Rightarrow> (Inl e, s1)
      | (Inr raft_config, s1) \<Rightarrow>
          (case getpath raft_config [''data'', ''config'', ''servers''] of
             Inl e \<Rightarrow> (Inl e, s1)
           | Inr servers \<Rightarrow> (py_len servers, s1)))"

subsection \<open>Recording the calls a method makes\<close>

text \<open>
  To state which calls a method makes and in which order, any client can be wrapped
  into one that does the same and appends each call to a trace kept beside the world.
\<close>

datatype api_call =
    ReadHealthStatus bool
  | Initialize int int
  | SubmitUnsealKey string
  | IsSealed
  | EnableAuditDevice string "(string \<times> string) list"
  | EnableAuthMethod string
  | EnableSecretsEngine string string string
  | ReadCaCertificate string
  | SignCertificate string string string string
  | TakeRaftSnapshot
  | ForceRestoreRaftSnapshot string
  | AdapterGet string
  | RemoveRaftNode string
  | ReadRaftConfig

definition record_call :: "api_call \<Rightarrow> ('w \<Rightarrow> 'r \<times> 'w) \<Rightarrow> 'w \<times> api_call list \<Rightarrow> 'r \<times> ('w \<times> api_call list)" where
  "record_call a f wt = (case f (fst wt) of (r, w') \<Rightarrow> (r, (w', snd wt @ [a])))"

definition recording :: "'w client \<Rightarrow> ('w \<times> api_call list) client" where
  "recording c =
     \<lparr>sys_read_health_status = (\<lambda>b. record_call (ReadHealthStatus b) (sys_read_health_status c b)),
      sys_initialize = (\<lambda>n t. record_call (Initialize n t) (sys_initialize c n t)),
      sys_submit_unseal_key = (\<lambda>k. record_call (SubmitUnsealKey k) (sys_submit_unseal_key c k)),
      sys_is_sealed = record_call IsSealed (sys_is_sealed c),
      sys_enable_audit_device =
        (\<lambda>d opts. record_call (EnableAuditDevice d opts) (sys_enable_audit_device c d opts)),
      sys_enable_auth_method = (\<lambda>m. record_call (EnableAuthMethod m) (sys_enable_auth_method c m)),
      sys_enable_secrets_engine =
        (\<lambda>b d p. record_call (EnableSecretsEngine b d p) (sys_enable_secrets_engine c b d p)),
      pki_read_ca_certificate =
        (\<lambda>m. record_call (ReadCaCertificate m) (pki_read_ca_certificate c m)),
      pki_sign_certificate =
        (\<lambda>csr m cn r. record_call (SignCertificate csr m cn r) (pki_sign_certificate c csr m cn r)),
      sys_take_raft_snapshot = record_call TakeRaftSnapshot (sys_take_raft_snapshot c),
      sys_force_restore_raft_snapshot =
        (\<lambda>b. record_call (ForceRestoreRaftSnapshot b) (sys_force_restore_raft_snapshot c b)),
      adapter_get = (\<lambda>u. record_call (AdapterGet u) (adapter_get c u)),
      sys_remove_raft_node = (\<lambda>n. record_call (RemoveRaftNode n) (sys_remove_raft_node c n)),
      sys_read_raft_config = record_call ReadRaftConfig (sys_read_raft_config c)\<rparr>"

text \<open>The trace a state of a recording client holds.\<close>

definition trace :: "('w \<times> api_call list) vault \<Rightarrow> api_call list" where
  "trace s = snd (world s)"

subsection \<open>Concrete clients\<close>

text \<open>
  A client bound to an endpoint that refuses every connection: each call raises
  \<open>RequestException\<close>. The concrete clients below override the operations they need.
\<close>

definition refused :: "'w \<Rightarrow> (exn + 'a) \<times> 'w" where
  "refused w = (Inl (RequestException ''connection refused''), w)"

definition unreachable :: "'w client" where
  "unreachable =
     \<lparr>sys_read_health_status = (\<lambda>b. refused),
      sys_initialize = (\<lambda>n t. refused),
      sys_submit_unseal_key = (\<lambda>k. refused),
      sys_is_sealed = refused,
      sys_enable_audit_device = (\<lambda>d opts. refused),
      sys_enable_auth_method = (\<lambda>m. refused),
      sys_enable_secrets_engine = (\<lambda>b d p. refused),
      pki_read_ca_certificate = (\<lambda>m. refused),
      pki_sign_certificate = (\<lambda>csr m cn r. refused),
      sys_take_raft_snapshot = refused,
      sys_force_restore_raft_snapshot = (\<lambda>b. refused),
      adapter_get = (\<lambda>u. refused),
      sys_remove_raft_node = (\<lambda>n. refused),
      sys_read_raft_config = refused\<rparr>"

text \<open>
  A node that unseals after two keys (the world counts the keys accepted so far) and
  rejects a key submitted once it is unsealed.
\<close>

definition two_key_client :: "nat client" where
  "two_key_client =
     unreachable
       \<lparr>sys_submit_unseal_key :=
          (\<lambda>k n. if n < 2 then (Inr PyNone, Suc n)
                 else (Inl (InvalidRequest ''vault is already unsealed''), n)),
        sys_is_sealed := (\<lambda>n. (Inr (n < 2), n))\<rparr>"

text \<open>
  A node that rejects every key and whose seal status cannot be read: the status query
  times out.
\<close>

definition status_timeout_client :: "unit client" where
  "status_timeout_client =
     unreachable
       \<lparr>sys_submit_unseal_key := (\<lambda>k w. (Inl (InvalidRequest ''rejected''), w)),
        sys_is_sealed := (\<lambda>w. (Inl (RequestException ''read timed out''), w))\<rparr>"

text \<open>A node that rejects every key and stays sealed.\<close>

definition wrong_key_client :: "unit client" where
  "wrong_key_client =
     unreachable
       \<lparr>sys_submit_unseal_key := (\<lambda>k w. (Inl (InvalidRequest ''invalid key''), w)),
        sys_is_sealed := (\<lambda>w. (Inr True, w))\<rparr>"


text \<open>A node whose autopilot state reports the given health.\<close>

definition autopilot_client :: "bool \<Rightarrow> unit client" where
  "autopilot_client h =
     unreachable
       \<lparr>adapter_get :=
          (\<lambda>url w. (Inr (PyDict [(''data'', PyDict [(''healthy'', PyBool h)])]), w))\<rparr>"

text \<open>
  A PKI mount that signs a request for a name under \<open>example.com\<close> and rejects any
  other, and whose CA certificate is \<open>''CA''\<close>.
\<close>

definition pki_client :: "unit client" where
  "pki_client =
     unreachable
       \<lparr>pki_read_ca_certificate := (\<lambda>mount w. (Inr (PyStr ''CA''), w)),
        pki_sign_certificate :=
          (\<lambda>csr mount common_name role w.
             if common_name = ''a.example.com''
             then (Inr (PyDict [(''data'',
                     PyDict [(''certificate'', PyStr ''CERT''),
                             (''issuing_ca'', PyStr ''CA''),
                             (''ca_chain'', PyList [PyStr ''CA'', PyStr ''ROOT''])])]), w)
             else (Inl (InvalidRequest ''common name not allowed by this role''), w))\<rparr>"

text \<open>A node with no PKI engine at the mount: the signing call finds no such path.\<close>

definition unmounted_pki_client :: "unit client" where
  "unmounted_pki_client =
     unreachable
       \<lparr>pki_sign_certificate :=
          (\<lambda>csr mount common_name role w. (Inl (InvalidPath ''no handler for route''), w))\<rparr>"

subsection \<open>The cluster behind the client\<close>

text \<open>
  The cluster that answers the client is not part of the repository. Where a property
  speaks of what the cluster does with a request, the cluster is modelled from the
  specification, and only as far as the specification describes it: the lifecycle state,
  the unseal material handed out at initialization, the raft peer list, the enabled
  audit devices, auth methods and secrets engines, and the stored data a snapshot copies.
\<close>

text \<open>Modelled from the spec: the states of the cluster lifecycle (section 4.1); the
  cluster is not in the repository.\<close>

datatype phase = UNINITIALIZED | SEALED | UNSEALED_STANDBY | UNSEALED_ACTIVE

text \<open>Modelled from the spec: the observable state of the cluster (sections 3 and 4.1),
  which is not in the repository. An audit device is known by its type and options, an
  auth method by its type, a secrets engine by the path it is mounted at.\<close>

record cluster =
  phase :: phase
  root_token :: string
  unseal_keys :: "string list"
  threshold :: nat
  peers :: "string list"
  audit_devices :: "(string \<times> (string \<times> string) list) list"
  auth_methods :: "string list"
  secrets_engines :: "(string \<times> string) list"
  storage :: string

text \<open>Modelled from the spec: the rejection of a second initialization, which section 7
  lists among the cluster-side rejections (``already initialized''); the client reports
  a rejected request as \<open>InvalidRequest\<close>. The cluster is not in the repository.\<close>

definition AlreadyInitialized :: exn where
  "AlreadyInitialized = InvalidRequest ''Vault is already initialized''"

text \<open>Modelled from the spec: the unseal material of section 3, a root token and
  \<open>secret_shares\<close> keys. The cluster, which is not in the repository, draws them at
  random; the model fixes the strings.\<close>

definition issued_root_token :: string where
  "issued_root_token = ''root-token''"

definition issued_keys :: "nat \<Rightarrow> string list" where
  "issued_keys n = map (\<lambda>i. ''unseal-key-'' @ replicate (Suc i) (CHR ''i'')) [0..<n]"

text \<open>Modelled from the spec: \<open>initialize\<close> in the transition table of section 4.1 (the
  cluster is not in the repository). An uninitialized cluster becomes sealed and hands
  out its unseal material; any other is left as it is and rejects the request.\<close>

definition cluster_initialize :: "int \<Rightarrow> int \<Rightarrow> cluster \<Rightarrow> (exn + pyval) \<times> cluster" where
  "cluster_initialize secret_shares secret_threshold cl =
     (if phase cl = UNINITIALIZED
      then (Inr (PyDict [(''root_token'', PyStr issued_root_token),
                         (''keys'', PyList (map PyStr (issued_keys (nat secret_shares))))]),
            cl\<lparr>phase := SEALED, root_token := issued_root_token,
               unseal_keys := issued_keys (nat secret_shares),
               threshold := nat secret_threshold\<rparr>)
      else (Inl AlreadyInitialized, cl))"

text \<open>Modelled from the spec: the rejection of a request to enable what is already
  enabled (sections 3, 4.3 and 7: ``already enabled''), by the cluster, which is not in
  the repository.\<close>

definition AlreadyEnabled :: exn where
  "AlreadyEnabled = InvalidRequest ''path is already in use''"

text \<open>Modelled from the spec: enabling an audit device on the cluster (sections 3 and
  4.3), which is not in the repository.\<close>

definition cluster_enable_audit_device :: "string \<Rightarrow> (string \<times> string) list \<Rightarrow> cluster \<Rightarrow> (exn + pyval) \<times> cluster" where
  "cluster_enable_audit_device device_type options cl =
     (if (device_type, options) \<in> set (audit_devices cl)
      then (Inl AlreadyEnabled, cl)
      else (Inr PyNone, cl\<lparr>audit_devices := audit_devices cl @ [(device_type, options)]\<rparr>))"

text \<open>Modelled from the spec: enabling an auth method on the cluster (sections 3 and
  4.3), which is not in the repository.\<close>

definition cluster_enable_auth_method :: "string \<Rightarrow> cluster \<Rightarrow> (exn + pyval) \<times> cluster" where
  "cluster_enable_auth_method method_type cl =
     (if method_type \<in> set (auth_methods cl)
      then (Inl AlreadyEnabled, cl)
      else (Inr PyNone, cl\<lparr>auth_methods := auth_methods cl @ [method_type]\<rparr>))"

text \<open>Modelled from the spec: enabling a secrets engine on the cluster (sections 3, 4.3
  and 8: one engine mounted at a path), which is not in the repository.\<close>

definition cluster_enable_secrets_engine :: "string \<Rightarrow> string \<Rightarrow> string \<Rightarrow> cluster \<Rightarrow> (exn + pyval) \<times> cluster" where
  "cluster_enable_secrets_engine backend_type description path cl =
     (if path \<in> set (map fst (secrets_engines cl))
      then (Inl AlreadyEnabled, cl)
      else (Inr PyNone, cl\<lparr>secrets_engines := secrets_engines cl @ [(path, backend_type)]\<rparr>))"

text \<open>Modelled from the spec: the number of secrets engines mounted at a path (section
  8), on the cluster, which is not in the repository.\<close>

definition engines_at :: "string \<Rightarrow> cluster \<Rightarrow> nat" where
  "engines_at path cl = length (filter (\<lambda>e. fst e = path) (secrets_engines cl))"

text \<open>Modelled from the spec: the peer-configuration read (section 4.1, ``list peers''):
  the ordered sequence of the peers, each with its \<open>node_id\<close>, in the envelope the
  source reads it from. The cluster is not in the repository.\<close>

definition raft_config_of :: "string list \<Rightarrow> pyval" where
  "raft_config_of ids =
     PyDict [(''data'', PyDict [(''config'',
       PyDict [(''servers'', PyList (map (\<lambda>i. PyDict [(''node_id'', PyStr i)]) ids))])])]"

definition cluster_read_raft_config :: "cluster \<Rightarrow> (exn + pyval) \<times> cluster" where
  "cluster_read_raft_config cl = (Inr (raft_config_of (peers cl)), cl)"

text \<open>Modelled from the spec: the removal of a peer (sections 3 and 4.1), on the
  cluster, which is not in the repository: the peer is gone from the next read of the
  configuration, and the removal of a node that is no peer succeeds and changes
  nothing.\<close>

definition cluster_remove_raft_node :: "string \<Rightarrow> cluster \<Rightarrow> (exn + pyval) \<times> cluster" where
  "cluster_remove_raft_node node_id cl =
     (Inr PyNone, cl\<lparr>peers := filter (\<lambda>p. p \<noteq> node_id) (peers cl)\<rparr>)"

text \<open>Modelled from the spec: taking a snapshot (section 4.1), on the cluster, which is
  not in the repository: an opaque copy of the stored data.\<close>

definition cluster_take_raft_snapshot :: "cluster \<Rightarrow> (exn + response) \<times> cluster" where
  "cluster_take_raft_snapshot cl = (Inr \<lparr>status_code = 200, content = storage cl\<rparr>, cl)"

text \<open>Modelled from the spec: the forced restore of a snapshot (section 4.1), on the
  cluster, which is not in the repository: it puts the snapshot's data in place and
  compares no unseal key and verifies no provenance.\<close>

definition cluster_force_restore_raft_snapshot :: "string \<Rightarrow> cluster \<Rightarrow> (exn + response) \<times> cluster" where
  "cluster_force_restore_raft_snapshot snapshot cl =
     (Inr \<lparr>status_code = 204, content = []\<rparr>, cl\<lparr>storage := snapshot\<rparr>)"

text \<open>Modelled from the spec: a client bound to the cluster above, for the operations
  the specification describes; the others are those of \<open>rest\<close>, whatever they are.\<close>

definition cluster_client :: "cluster client \<Rightarrow> cluster client" where
  "cluster_client rest =
     rest\<lparr>sys_initialize := cluster_initialize,
          sys_enable_audit_device := cluster_enable_audit_device,
          sys_enable_auth_method := cluster_enable_auth_method,
          sys_enable_secrets_engine := cluster_enable_secrets_engine,
          sys_take_raft_snapshot := cluster_take_raft_snapshot,
          sys_force_restore_raft_snapshot := cluster_force_restore_raft_snapshot,
          sys_remove_raft_node := cluster_remove_raft_node,
          sys_read_raft_config := cluster_read_raft_config\<rparr>"

text \<open>A cluster of three peers, unsealed and serving, with nothing enabled yet.\<close>

definition three_peers :: cluster where
  "three_peers =
     \<lparr>phase = UNSEALED_ACTIVE, root_token = ''t'', unseal_keys = [''k1''], threshold = 1,
      peers = [''a'', ''b'', ''c''], audit_devices = [], auth_methods = [],
      secrets_engines = [], storage = ''stored-data''\<rparr>"

text \<open>The same cluster with an audit device, the approle method and a PKI engine enabled,
  and, beside it, as it is after its unseal keys were rotated and its data lost.\<close>

definition configured :: cluster where
  "configured =
     three_peers
       \<lparr>audit_devices := [(''file'', [(''file_path'', ''stdout'')])],
        auth_methods := [''approle''],
        secrets_engines := [(''charm-pki'', ''pki'')]\<rparr>"

definition rekeyed :: cluster where
  "rekeyed = three_peers\<lparr>unseal_keys := [''k2''], storage := []\<rparr>"

text \<open>A cluster that has not been initialized.\<close>

definition blank :: cluster where
  "blank =
     \<lparr>phase = UNINITIALIZED, root_token = [], unseal_keys = [], threshold = 0,
      peers = [], audit_devices = [], auth_methods = [],
      secrets_engines = [], storage = []\<rparr>"

section \<open>Properties\<close>

subsection \<open>Shared lemmas\<close>

lemma call_eq: "f (world s) = (r, w') \<Longrightarrow> call f s = (r, s\<lparr>world := w'\<rparr>)"
  by (simp add: call_def)

subsection \<open>The two checks of the CA certificate\<close>

text \<open>
  C10. \<open>is_intermediate_ca_set\<close> and \<open>is_pki_ca_certificate_set\<close> are the same
  function: for every client, mount, certificate and state, each reads the CA
  certificate of the mount once and answers whether it equals the certificate given;
  what the read raises, each raises; the world is the one the read left.
\<close>

theorem ca_checks_equivalent:
  "is_intermediate_ca_set c mount cert s = is_pki_ca_certificate_set c mount cert s
   \<and> is_pki_ca_certificate_set c mount cert s =
       (case pki_read_ca_certificate c mount (world s) of
          (Inl e, w') \<Rightarrow> (Inl e, s\<lparr>world := w'\<rparr>)
        | (Inr v, w') \<Rightarrow> (Inr (v = PyStr cert), s\<lparr>world := w'\<rparr>))"
proof
  show "is_intermediate_ca_set c mount cert s = is_pki_ca_certificate_set c mount cert s"
    by (simp add: is_intermediate_ca_set_def is_pki_ca_certificate_set_def)
  show "is_pki_ca_certificate_set c mount cert s =
       (case pki_read_ca_certificate c mount (world s) of
          (Inl e, w') \<Rightarrow> (Inl e, s\<lparr>world := w'\<rparr>)
        | (Inr v, w') \<Rightarrow> (Inr (v = PyStr cert), s\<lparr>world := w'\<rparr>))"
    by (simp add: is_pki_ca_certificate_set_def call_def split: prod.splits sum.splits)
qed

theorem ca_checks_equivalent_witness:
  "is_intermediate_ca_set pki_client ''pki'' ''CA'' \<lparr>world = (), logged = []\<rparr>
     = (Inr True, \<lparr>world = (), logged = []\<rparr>)
   \<and> is_pki_ca_certificate_set pki_client ''pki'' ''CA'' \<lparr>world = (), logged = []\<rparr>
     = (Inr True, \<lparr>world = (), logged = []\<rparr>)
   \<and> is_intermediate_ca_set pki_client ''pki'' ''ca'' \<lparr>world = (), logged = []\<rparr>
     = (Inr False, \<lparr>world = (), logged = []\<rparr>)
   \<and> is_intermediate_ca_set unreachable ''pki'' ''CA'' \<lparr>world = (), logged = []\<rparr>
     = (Inl (RequestException ''connection refused''), \<lparr>world = (), logged = []\<rparr>)
   \<and> is_pki_ca_certificate_set unreachable ''pki'' ''CA'' \<lparr>world = (), logged = []\<rparr>
     = (Inl (RequestException ''connection refused''), \<lparr>world = (), logged = []\<rparr>)"
  using ca_checks_equivalent [of pki_client "''pki''" "''CA''" "\<lparr>world = (), logged = []\<rparr>"]
        ca_checks_equivalent [of pki_client "''pki''" "''ca''" "\<lparr>world = (), logged = []\<rparr>"]
        ca_checks_equivalent [of unreachable "''pki''" "''CA''" "\<lparr>world = (), logged = []\<rparr>"]
  by (simp add: pki_client_def unreachable_def refused_def)

subsection \<open>The health predicates\<close>



subsection \<open>The health of the raft cluster\<close>

text \<open>
  C3. \<open>is_raft_cluster_healthy\<close> reads the autopilot state at
  \<open>RAFT_STATE_ENDPOINT\<close> and returns the \<open>healthy\<close> field of the \<open>data\<close> envelope
  of the answer. When the read raises, \<open>is_raft_cluster_healthy\<close> raises the same
  exception; \<open>is_active\<close>, for a health query that raises a \<open>VaultError\<close> or a
  \<open>RequestException\<close>, returns False.
\<close>

theorem raft_health_projects_and_propagates:
  "(adapter_get c RAFT_STATE_ENDPOINT (world s) = (Inr resp, w') \<and>
      getpath resp [''data'', ''healthy''] = Inr v \<longrightarrow>
      is_raft_cluster_healthy c s = (Inr v, s\<lparr>world := w'\<rparr>))
   \<and> (adapter_get c RAFT_STATE_ENDPOINT (world s) = (Inl e, w') \<longrightarrow>
      is_raft_cluster_healthy c s = (Inl e, s\<lparr>world := w'\<rparr>))
   \<and> (sys_read_health_status c True (world s) = (Inl e, w') \<and>
        (is_VaultError e \<or> is_RequestException e) \<longrightarrow>
      fst (is_active c s) = Inr False)"
  by (auto simp add: is_raft_cluster_healthy_def get_raft_cluster_state_def is_active_def
        call_def split: sum.splits)

theorem raft_health_projects_and_propagates_witness:
  "is_raft_cluster_healthy (autopilot_client True) \<lparr>world = (), logged = []\<rparr>
     = (Inr (PyBool True), \<lparr>world = (), logged = []\<rparr>)
   \<and> is_raft_cluster_healthy (autopilot_client False) \<lparr>world = (), logged = []\<rparr>
     = (Inr (PyBool False), \<lparr>world = (), logged = []\<rparr>)
   \<and> is_raft_cluster_healthy unreachable \<lparr>world = (), logged = []\<rparr>
     = (Inl (RequestException ''connection refused''), \<lparr>world = (), logged = []\<rparr>)
   \<and> fst (is_active unreachable \<lparr>world = (), logged = []\<rparr>) = Inr False"
proof -
  let ?s = "\<lparr>world = (), logged = []\<rparr> :: unit vault"
  have up: "adapter_get (autopilot_client h) RAFT_STATE_ENDPOINT (world ?s)
              = (Inr (PyDict [(''data'', PyDict [(''healthy'', PyBool h)])]), ())
            \<and> getpath (PyDict [(''data'', PyDict [(''healthy'', PyBool h)])])
                [''data'', ''healthy''] = Inr (PyBool h)" for h
    by (simp add: autopilot_client_def)
  have down: "adapter_get unreachable RAFT_STATE_ENDPOINT (world ?s)
              = (Inl (RequestException ''connection refused''), ())"
    by (simp add: unreachable_def refused_def)
  have hdown: "sys_read_health_status unreachable True (world ?s)
              = (Inl (RequestException ''connection refused''), ())
             \<and> (is_VaultError (RequestException ''connection refused'')
                \<or> is_RequestException (RequestException ''connection refused''))"
    by (simp add: unreachable_def refused_def)
  note a = raft_health_projects_and_propagates
             [of "autopilot_client True" ?s, THEN conjunct1, rule_format, OF up]
  note b = raft_health_projects_and_propagates
             [of "autopilot_client False" ?s, THEN conjunct1, rule_format, OF up]
  note d = raft_health_projects_and_propagates
             [of unreachable ?s, THEN conjunct2, THEN conjunct1, rule_format, OF down]
  note e = raft_health_projects_and_propagates
             [of unreachable ?s, THEN conjunct2, THEN conjunct2, rule_format, OF hdown]
  from a b d e show ?thesis by simp
qed

subsection \<open>Signing a certificate request\<close>

text \<open>
  C8, as the code has it. When the cluster rejects the signing request as an invalid
  request (the client raises \<open>InvalidRequest\<close>),
  \<open>sign_pki_certificate_signing_request\<close> logs a warning and returns None; it does
  not raise. Any other exception of the signing call (\<open>InvalidPath\<close>, another
  \<open>VaultError\<close>, a \<open>RequestException\<close>) is raised to the caller, with nothing
  logged. When the request is signed, it returns a \<open>Certificate\<close> whose
  \<open>certificate\<close>, \<open>ca\<close> and \<open>chain\<close> are the \<open>certificate\<close>,
  \<open>issuing_ca\<close> and \<open>ca_chain\<close> of the \<open>data\<close> of the answer.
\<close>

theorem sign_invalid_request_is_none:
  "(pki_sign_certificate c csr mount common_name role (world s) = (Inl (InvalidRequest m), w')
      \<longrightarrow>
      sign_pki_certificate_signing_request c mount role csr common_name s =
        (Inr None, \<lparr>world = w', logged = logged s @
           [(WARNING, ''Error while signing PKI certificate: '' @ m)]\<rparr>))
   \<and> (pki_sign_certificate c csr mount common_name role (world s) = (Inl e, w') \<and>
        \<not> is_InvalidRequest e
      \<longrightarrow>
      sign_pki_certificate_signing_request c mount role csr common_name s =
        (Inl e, s\<lparr>world := w'\<rparr>))
   \<and> (pki_sign_certificate c csr mount common_name role (world s) = (Inr resp, w') \<and>
        getpath resp [''data'', ''certificate''] = Inr crt \<and>
        getpath resp [''data'', ''issuing_ca''] = Inr issuing \<and>
        getpath resp [''data'', ''ca_chain''] = Inr ca_chain
      \<longrightarrow>
      sign_pki_certificate_signing_request c mount role csr common_name s =
        (Inr (Some \<lparr>certificate = crt, ca = issuing, chain = ca_chain\<rparr>),
         \<lparr>world = w', logged = logged s @
           [(INFO, ''Signed a PKI certificate for '' @ common_name)]\<rparr>))"
proof (intro conjI impI)
  assume "pki_sign_certificate c csr mount common_name role (world s) = (Inl (InvalidRequest m), w')"
  then show "sign_pki_certificate_signing_request c mount role csr common_name s =
        (Inr None, \<lparr>world = w', logged = logged s @
           [(WARNING, ''Error while signing PKI certificate: '' @ m)]\<rparr>)"
    by (simp add: sign_pki_certificate_signing_request_def call_def logger_def)
next
  assume "pki_sign_certificate c csr mount common_name role (world s) = (Inl e, w') \<and>
        \<not> is_InvalidRequest e"
  then show "sign_pki_certificate_signing_request c mount role csr common_name s =
        (Inl e, s\<lparr>world := w'\<rparr>)"
    by (simp add: sign_pki_certificate_signing_request_def call_def)
next
  assume h: "pki_sign_certificate c csr mount common_name role (world s) = (Inr resp, w') \<and>
        getpath resp [''data'', ''certificate''] = Inr crt \<and>
        getpath resp [''data'', ''issuing_ca''] = Inr issuing \<and>
        getpath resp [''data'', ''ca_chain''] = Inr ca_chain"
  have "call (pki_sign_certificate c csr mount common_name role) s = (Inr resp, s\<lparr>world := w'\<rparr>)"
    using h by (simp add: call_eq)
  then show "sign_pki_certificate_signing_request c mount role csr common_name s =
        (Inr (Some \<lparr>certificate = crt, ca = issuing, chain = ca_chain\<rparr>),
         \<lparr>world = w', logged = logged s @
           [(INFO, ''Signed a PKI certificate for '' @ common_name)]\<rparr>)"
    using h by (simp add: sign_pki_certificate_signing_request_def logger_def del: getpath.simps)
qed

theorem sign_invalid_request_is_none_witness:
  "sign_pki_certificate_signing_request pki_client ''pki'' ''charm'' ''CSR'' ''b.other.org''
       \<lparr>world = (), logged = []\<rparr>
     = (Inr None, \<lparr>world = (), logged =
         [(WARNING, ''Error while signing PKI certificate: common name not allowed by this role'')]\<rparr>)
   \<and> sign_pki_certificate_signing_request unmounted_pki_client ''pki'' ''charm'' ''CSR''
       ''a.example.com'' \<lparr>world = (), logged = []\<rparr>
     = (Inl (InvalidPath ''no handler for route''), \<lparr>world = (), logged = []\<rparr>)
   \<and> sign_pki_certificate_signing_request unreachable ''pki'' ''charm'' ''CSR''
       ''a.example.com'' \<lparr>world = (), logged = []\<rparr>
     = (Inl (RequestException ''connection refused''), \<lparr>world = (), logged = []\<rparr>)
   \<and> sign_pki_certificate_signing_request pki_client ''pki'' ''charm'' ''CSR'' ''a.example.com''
       \<lparr>world = (), logged = []\<rparr>
     = (Inr (Some \<lparr>certificate = PyStr ''CERT'', ca = PyStr ''CA'',
                   chain = PyList [PyStr ''CA'', PyStr ''ROOT'']\<rparr>),
        \<lparr>world = (), logged = [(INFO, ''Signed a PKI certificate for a.example.com'')]\<rparr>)"
proof -
  let ?s = "\<lparr>world = (), logged = []\<rparr> :: unit vault"
  let ?resp = "PyDict [(''data'',
                     PyDict [(''certificate'', PyStr ''CERT''),
                             (''issuing_ca'', PyStr ''CA''),
                             (''ca_chain'', PyList [PyStr ''CA'', PyStr ''ROOT''])])]"
  have rej: "pki_sign_certificate pki_client ''CSR'' ''pki'' ''b.other.org'' ''charm'' (world ?s)
               = (Inl (InvalidRequest ''common name not allowed by this role''), ())"
    by (simp add: pki_client_def)
  have nopath: "pki_sign_certificate unmounted_pki_client ''CSR'' ''pki'' ''a.example.com''
                  ''charm'' (world ?s) = (Inl (InvalidPath ''no handler for route''), ())
                \<and> \<not> is_InvalidRequest (InvalidPath ''no handler for route'')"
    by (simp add: unmounted_pki_client_def)
  have down: "pki_sign_certificate unreachable ''CSR'' ''pki'' ''a.example.com''
                  ''charm'' (world ?s) = (Inl (RequestException ''connection refused''), ())
                \<and> \<not> is_InvalidRequest (RequestException ''connection refused'')"
    by (simp add: unreachable_def refused_def)
  have ok: "pki_sign_certificate pki_client ''CSR'' ''pki'' ''a.example.com'' ''charm'' (world ?s)
               = (Inr ?resp, ()) \<and>
            getpath ?resp [''data'', ''certificate''] = Inr (PyStr ''CERT'') \<and>
            getpath ?resp [''data'', ''issuing_ca''] = Inr (PyStr ''CA'') \<and>
            getpath ?resp [''data'', ''ca_chain''] = Inr (PyList [PyStr ''CA'', PyStr ''ROOT''])"
    by (simp add: pki_client_def)
  note a = sign_invalid_request_is_none [THEN conjunct1, rule_format, OF rej]
  note n = sign_invalid_request_is_none
             [THEN conjunct2, THEN conjunct1, rule_format, OF nopath]
  note d = sign_invalid_request_is_none
             [THEN conjunct2, THEN conjunct1, rule_format, OF down]
  note b = sign_invalid_request_is_none
             [THEN conjunct2, THEN conjunct2, rule_format, OF ok]
  from a n d b show ?thesis by simp
qed

text \<open>
  C8 as stated fails for a rejection that is not an invalid request: with no PKI engine
  at the mount the cluster rejects the signing request as a path not found, the client
  raises \<open>InvalidPath\<close>, and \<open>sign_pki_certificate_signing_request\<close> raises it
  instead of returning None.
\<close>

theorem sign_rejection_raised_counterexample:
  "pki_sign_certificate unmounted_pki_client ''CSR'' ''pki'' ''a.example.com'' ''charm'' ()
     = (Inl (InvalidPath ''no handler for route''), ())
   \<and> is_VaultError (InvalidPath ''no handler for route'')
   \<and> sign_pki_certificate_signing_request unmounted_pki_client ''pki'' ''charm'' ''CSR''
       ''a.example.com'' \<lparr>world = (), logged = []\<rparr>
     = (Inl (InvalidPath ''no handler for route''), \<lparr>world = (), logged = []\<rparr>)
   \<and> fst (sign_pki_certificate_signing_request unmounted_pki_client ''pki'' ''charm'' ''CSR''
       ''a.example.com'' \<lparr>world = (), logged = []\<rparr>) \<noteq> Inr None"
  by (simp add: sign_pki_certificate_signing_request_def unmounted_pki_client_def call_def)

subsection \<open>Unsealing\<close>

lemma submit_unseal_keys_append:
  "submit_unseal_keys c (ks1 @ ks2) s =
     (case submit_unseal_keys c ks1 s of
        (Inl e, s1) \<Rightarrow> (Inl e, s1)
      | (Inr u, s1) \<Rightarrow> submit_unseal_keys c ks2 s1)"
  by (induction ks1 arbitrary: s) (auto split: prod.splits sum.splits)

lemma submit_unseal_keys_rejected:
  assumes "submit_unseal_keys c accepted s = (Inr (), s1)"
      and "sys_submit_unseal_key c k (world s1) = (Inl e, w2)"
  shows "submit_unseal_keys c (accepted @ k # remaining) s = (Inl e, s1\<lparr>world := w2\<rparr>)"
  using assms by (simp add: submit_unseal_keys_append call_eq)

lemma trace_call_recorded:
  "call (record_call a f) t = (r, t1) \<Longrightarrow> trace t1 = trace t @ [a]"
  by (auto simp add: call_def record_call_def trace_def split: prod.splits)

lemma trace_logger: "trace (logger lv msg t) = trace t"
  by (simp add: trace_def logger_def)

lemma submit_unseal_keys_trace:
  "submit_unseal_keys (recording c) keys t = (r, t1) \<Longrightarrow>
     \<exists>n\<le>length keys. trace t1 = trace t @ map SubmitUnsealKey (take n keys)"
proof (induction keys arbitrary: t)
  case Nil
  then show ?case by simp
next
  case (Cons k keys)
  obtain r0 t0 where step: "call (sys_submit_unseal_key (recording c) k) t = (r0, t0)"
    by (cases "call (sys_submit_unseal_key (recording c) k) t")
  then have tr0: "trace t0 = trace t @ [SubmitUnsealKey k]"
    by (simp add: recording_def trace_call_recorded)
  show ?case
  proof (cases r0)
    case (Inl e)
    with Cons.prems step have "t1 = t0" by simp
    with tr0 have "trace t1 = trace t @ map SubmitUnsealKey (take 1 (k # keys))" by simp
    then show ?thesis by (intro exI [of _ 1]) simp
  next
    case (Inr v)
    with Cons.prems step have "submit_unseal_keys (recording c) keys t0 = (r, t1)" by simp
    from Cons.IH [OF this] obtain n where
      n: "n \<le> length keys" "trace t1 = trace t0 @ map SubmitUnsealKey (take n keys)"
      by blast
    with tr0 have "trace t1 = trace t @ map SubmitUnsealKey (take (Suc n) (k # keys))" by simp
    with n(1) show ?thesis by (intro exI [of _ "Suc n"]) simp
  qed
qed

lemma unseal_trace:
  "\<exists>n\<le>length keys.
      trace (snd (unseal (recording c) keys t)) = trace t @ map SubmitUnsealKey (take n keys)
    \<or> trace (snd (unseal (recording c) keys t))
        = trace t @ map SubmitUnsealKey (take n keys) @ [IsSealed]"
proof -
  obtain r t1 where run: "submit_unseal_keys (recording c) keys t = (r, t1)"
    by (cases "submit_unseal_keys (recording c) keys t")
  from submit_unseal_keys_trace [OF run] obtain n where
    n: "n \<le> length keys" "trace t1 = trace t @ map SubmitUnsealKey (take n keys)"
    by blast
  obtain q t2 where seal: "call (sys_is_sealed (recording c)) t1 = (q, t2)"
    by (cases "call (sys_is_sealed (recording c)) t1")
  then have t2: "trace t2 = trace t1 @ [IsSealed]"
    by (simp add: recording_def trace_call_recorded)
  have "trace (snd (unseal (recording c) keys t)) = trace t1
      \<or> trace (snd (unseal (recording c) keys t)) = trace t1 @ [IsSealed]"
    using run seal t2
    by (auto simp add: unseal_def trace_logger split: sum.splits)
  with n show ?thesis by auto
qed

text \<open>
  C1, as the code has it. \<open>unseal\<close> submits the keys one at a time, in the order
  given, and stops at the first submission that raises: the calls it makes are the
  submissions of a prefix of the keys, followed by at most one seal-status query. When
  every key is accepted it logs and returns. When a submission raises
  \<open>InvalidRequest\<close>, it queries the seal status: not sealed, it returns normally (the
  rejection is swallowed); sealed, it raises the rejection again; and when the
  seal-status query itself raises, that exception reaches the caller in place of the
  rejection. Any other exception of a submission reaches the caller as it is.
\<close>

theorem unseal_outcomes:
  "(submit_unseal_keys c keys s = (Inr (), s1) \<longrightarrow>
      unseal c keys s = (Inr (), s1\<lparr>logged := logged s1 @ [(INFO, ''Vault is unsealed'')]\<rparr>))
   \<and> (submit_unseal_keys c accepted s = (Inr (), s1) \<and>
      sys_submit_unseal_key c k (world s1) = (Inl e, w2) \<longrightarrow>
      unseal c (accepted @ k # remaining) s =
        (if is_InvalidRequest e
         then (case sys_is_sealed c w2 of
                 (Inr sealed, w3) \<Rightarrow> (if sealed then Inl e else Inr (), s1\<lparr>world := w3\<rparr>)
               | (Inl e', w3) \<Rightarrow> (Inl e', s1\<lparr>world := w3\<rparr>))
         else (Inl e, s1\<lparr>world := w2\<rparr>)))
   \<and> (\<exists>n\<le>length keys.
        trace (snd (unseal (recording c) keys t)) = trace t @ map SubmitUnsealKey (take n keys)
      \<or> trace (snd (unseal (recording c) keys t))
          = trace t @ map SubmitUnsealKey (take n keys) @ [IsSealed])"
proof (intro conjI impI)
  assume "submit_unseal_keys c keys s = (Inr (), s1)"
  then show "unseal c keys s
      = (Inr (), s1\<lparr>logged := logged s1 @ [(INFO, ''Vault is unsealed'')]\<rparr>)"
    by (simp add: unseal_def logger_def)
next
  assume h: "submit_unseal_keys c accepted s = (Inr (), s1) \<and>
      sys_submit_unseal_key c k (world s1) = (Inl e, w2)"
  then have "submit_unseal_keys c (accepted @ k # remaining) s = (Inl e, s1\<lparr>world := w2\<rparr>)"
    by (simp add: submit_unseal_keys_rejected)
  then show "unseal c (accepted @ k # remaining) s =
        (if is_InvalidRequest e
         then (case sys_is_sealed c w2 of
                 (Inr sealed, w3) \<Rightarrow> (if sealed then Inl e else Inr (), s1\<lparr>world := w3\<rparr>)
               | (Inl e', w3) \<Rightarrow> (Inl e', s1\<lparr>world := w3\<rparr>))
         else (Inl e, s1\<lparr>world := w2\<rparr>))"
    by (simp add: unseal_def call_def split: prod.splits sum.splits)
next
  show "\<exists>n\<le>length keys.
        trace (snd (unseal (recording c) keys t)) = trace t @ map SubmitUnsealKey (take n keys)
      \<or> trace (snd (unseal (recording c) keys t))
          = trace t @ map SubmitUnsealKey (take n keys) @ [IsSealed]"
    by (rule unseal_trace)
qed

theorem unseal_outcomes_witness:
  "unseal two_key_client [''k1'', ''k2''] \<lparr>world = 0, logged = []\<rparr>
     = (Inr (), \<lparr>world = 2, logged = [(INFO, ''Vault is unsealed'')]\<rparr>)
   \<and> unseal two_key_client [''k1'', ''k2'', ''k3'', ''k4''] \<lparr>world = 0, logged = []\<rparr>
     = (Inr (), \<lparr>world = 2, logged = []\<rparr>)
   \<and> unseal wrong_key_client [''k1'', ''k2''] \<lparr>world = (), logged = []\<rparr>
     = (Inl (InvalidRequest ''invalid key''), \<lparr>world = (), logged = []\<rparr>)
   \<and> unseal status_timeout_client [''k1'', ''k2''] \<lparr>world = (), logged = []\<rparr>
     = (Inl (RequestException ''read timed out''), \<lparr>world = (), logged = []\<rparr>)
   \<and> unseal unreachable [''k1'', ''k2''] \<lparr>world = (), logged = []\<rparr>
     = (Inl (RequestException ''connection refused''), \<lparr>world = (), logged = []\<rparr>)
   \<and> trace (snd (unseal (recording two_key_client) [''k1'', ''k2'', ''k3'', ''k4'']
               \<lparr>world = (0, []), logged = []\<rparr>))
     = [SubmitUnsealKey ''k1'', SubmitUnsealKey ''k2'', SubmitUnsealKey ''k3'', IsSealed]"
proof -
  let ?s0 = "\<lparr>world = 0, logged = []\<rparr> :: nat vault"
  let ?s2 = "\<lparr>world = 2, logged = []\<rparr> :: nat vault"
  let ?u = "\<lparr>world = (), logged = []\<rparr> :: unit vault"
  have two: "submit_unseal_keys two_key_client [''k1'', ''k2''] ?s0 = (Inr (), ?s2)"
    by (simp add: two_key_client_def call_def numeral_2_eq_2)
  have third: "sys_submit_unseal_key two_key_client ''k3'' (world ?s2)
                 = (Inl (InvalidRequest ''vault is already unsealed''), 2)"
    by (simp add: two_key_client_def)
  have none: "submit_unseal_keys c [] ?u = (Inr (), ?u)" for c :: "unit client"
    by simp
  have wrong: "sys_submit_unseal_key wrong_key_client ''k1'' (world ?u)
                 = (Inl (InvalidRequest ''invalid key''), ())"
    by (simp add: wrong_key_client_def)
  have timeout: "sys_submit_unseal_key status_timeout_client ''k1'' (world ?u)
                 = (Inl (InvalidRequest ''rejected''), ())"
    by (simp add: status_timeout_client_def)
  have down: "sys_submit_unseal_key unreachable ''k1'' (world ?u)
                 = (Inl (RequestException ''connection refused''), ())"
    by (simp add: unreachable_def refused_def)
  note a = unseal_outcomes [THEN conjunct1, rule_format, OF two]
  note b = unseal_outcomes [where remaining = "[''k4'']", THEN conjunct2, THEN conjunct1,
             rule_format, OF conjI [OF two third]]
  note w = unseal_outcomes [where remaining = "[''k2'']", THEN conjunct2, THEN conjunct1,
             rule_format, OF conjI [OF none wrong]]
  note x = unseal_outcomes [where remaining = "[''k2'']", THEN conjunct2, THEN conjunct1,
             rule_format, OF conjI [OF none timeout]]
  note d = unseal_outcomes [where remaining = "[''k2'']", THEN conjunct2, THEN conjunct1,
             rule_format, OF conjI [OF none down]]
  have tr: "trace (snd (unseal (recording two_key_client) [''k1'', ''k2'', ''k3'', ''k4'']
               \<lparr>world = (0, []), logged = []\<rparr>))
     = [SubmitUnsealKey ''k1'', SubmitUnsealKey ''k2'', SubmitUnsealKey ''k3'', IsSealed]"
    by (simp add: unseal_def recording_def record_call_def two_key_client_def call_def
          trace_def numeral_2_eq_2)
  from a b w x d tr show ?thesis
    by (simp add: two_key_client_def wrong_key_client_def status_timeout_client_def
          unreachable_def refused_def)
qed

text \<open>
  C1 as stated fails where the seal status cannot be read: the submission is rejected
  with \<open>InvalidRequest\<close>, no seal-status query reports the cluster unsealed, and what
  \<open>unseal\<close> raises is the exception of the seal-status query, not the rejection.
\<close>

theorem unseal_reraise_counterexample:
  "sys_submit_unseal_key status_timeout_client ''k1'' () = (Inl (InvalidRequest ''rejected''), ())
   \<and> sys_is_sealed status_timeout_client () = (Inl (RequestException ''read timed out''), ())
   \<and> unseal status_timeout_client [''k1''] \<lparr>world = (), logged = []\<rparr>
       = (Inl (RequestException ''read timed out''), \<lparr>world = (), logged = []\<rparr>)
   \<and> fst (unseal status_timeout_client [''k1''] \<lparr>world = (), logged = []\<rparr>)
       \<noteq> Inl (InvalidRequest ''rejected'')"
  by (simp add: unseal_def status_timeout_client_def call_def)

subsection \<open>Methods over the modelled cluster\<close>

lemma cluster_client_ops:
  "sys_initialize (cluster_client rest) = cluster_initialize"
  "sys_enable_audit_device (cluster_client rest) = cluster_enable_audit_device"
  "sys_enable_auth_method (cluster_client rest) = cluster_enable_auth_method"
  "sys_enable_secrets_engine (cluster_client rest) = cluster_enable_secrets_engine"
  "sys_take_raft_snapshot (cluster_client rest) = cluster_take_raft_snapshot"
  "sys_force_restore_raft_snapshot (cluster_client rest) = cluster_force_restore_raft_snapshot"
  "sys_remove_raft_node (cluster_client rest) = cluster_remove_raft_node"
  "sys_read_raft_config (cluster_client rest) = cluster_read_raft_config"
  by (simp_all add: cluster_client_def)

lemma length_issued_keys: "length (issued_keys n) = n"
  by (simp add: issued_keys_def)

lemma initialize_on_initialized:
  "phase cl \<noteq> UNINITIALIZED \<Longrightarrow>
     initialize (cluster_client rest) n t \<lparr>world = cl, logged = lg\<rparr>
       = (Inl AlreadyInitialized, \<lparr>world = cl, logged = lg\<rparr>)"
  by (simp add: initialize_def call_def cluster_client_ops cluster_initialize_def)

lemma initialize_on_uninitialized:
  "phase cl = UNINITIALIZED \<Longrightarrow>
     initialize (cluster_client rest) n t \<lparr>world = cl, logged = lg\<rparr>
       = (Inr (PyStr issued_root_token, PyList (map PyStr (issued_keys (nat n)))),
          \<lparr>world = cl\<lparr>phase := SEALED, root_token := issued_root_token,
                        unseal_keys := issued_keys (nat n), threshold := nat t\<rparr>,
           logged = lg @ [(INFO, ''Vault is initialized'')]\<rparr>)"
  by (simp add: initialize_def call_def cluster_client_ops cluster_initialize_def logger_def)

text \<open>
  C2, over the cluster modelled from the specification. On an uninitialized cluster
  \<open>initialize\<close> returns the root token and the unseal keys the cluster then holds
  (\<open>secret_shares\<close> of them) and leaves the cluster sealed; every later call, and every
  call on a cluster that is already initialized, fails with \<open>AlreadyInitialized\<close> and
  leaves the cluster and the log as they were. For any client, what the client's
  \<open>initialize\<close> raises is raised unchanged.
\<close>

theorem initialize_exactly_once:
  "(phase cl = UNINITIALIZED \<longrightarrow>
      (\<exists>cl'. initialize (cluster_client rest) n t \<lparr>world = cl, logged = lg\<rparr>
               = (Inr (PyStr (root_token cl'), PyList (map PyStr (unseal_keys cl'))),
                  \<lparr>world = cl', logged = lg @ [(INFO, ''Vault is initialized'')]\<rparr>)
           \<and> phase cl' = SEALED
           \<and> length (unseal_keys cl') = nat n
           \<and> initialize (cluster_client rest) n2 t2 \<lparr>world = cl', logged = lg2\<rparr>
               = (Inl AlreadyInitialized, \<lparr>world = cl', logged = lg2\<rparr>)))
   \<and> (phase cl \<noteq> UNINITIALIZED \<longrightarrow>
        initialize (cluster_client rest) n t \<lparr>world = cl, logged = lg\<rparr>
          = (Inl AlreadyInitialized, \<lparr>world = cl, logged = lg\<rparr>))
   \<and> (sys_initialize c n t (world s) = (Inl e, w') \<longrightarrow>
        initialize c n t s = (Inl e, s\<lparr>world := w'\<rparr>))"
proof (intro conjI impI)
  assume un: "phase cl = UNINITIALIZED"
  let ?cl = "cl\<lparr>phase := SEALED, root_token := issued_root_token,
                unseal_keys := issued_keys (nat n), threshold := nat t\<rparr>"
  have "initialize (cluster_client rest) n t \<lparr>world = cl, logged = lg\<rparr>
          = (Inr (PyStr (root_token ?cl), PyList (map PyStr (unseal_keys ?cl))),
             \<lparr>world = ?cl, logged = lg @ [(INFO, ''Vault is initialized'')]\<rparr>)"
    using initialize_on_uninitialized [OF un] by simp
  moreover have "phase ?cl = SEALED" by simp
  moreover have "length (unseal_keys ?cl) = nat n" by (simp add: length_issued_keys)
  moreover have "initialize (cluster_client rest) n2 t2 \<lparr>world = ?cl, logged = lg2\<rparr>
          = (Inl AlreadyInitialized, \<lparr>world = ?cl, logged = lg2\<rparr>)"
    by (rule initialize_on_initialized) simp
  ultimately show "\<exists>cl'. initialize (cluster_client rest) n t \<lparr>world = cl, logged = lg\<rparr>
               = (Inr (PyStr (root_token cl'), PyList (map PyStr (unseal_keys cl'))),
                  \<lparr>world = cl', logged = lg @ [(INFO, ''Vault is initialized'')]\<rparr>)
           \<and> phase cl' = SEALED
           \<and> length (unseal_keys cl') = nat n
           \<and> initialize (cluster_client rest) n2 t2 \<lparr>world = cl', logged = lg2\<rparr>
               = (Inl AlreadyInitialized, \<lparr>world = cl', logged = lg2\<rparr>)"
    by blast
next
  assume "phase cl \<noteq> UNINITIALIZED"
  then show "initialize (cluster_client rest) n t \<lparr>world = cl, logged = lg\<rparr>
          = (Inl AlreadyInitialized, \<lparr>world = cl, logged = lg\<rparr>)"
    by (rule initialize_on_initialized)
next
  assume "sys_initialize c n t (world s) = (Inl e, w')"
  then show "initialize c n t s = (Inl e, s\<lparr>world := w'\<rparr>)"
    by (simp add: initialize_def call_def)
qed

theorem initialize_exactly_once_witness:
  "(\<exists>cl'. initialize (cluster_client unreachable) 3 2 \<lparr>world = blank, logged = []\<rparr>
               = (Inr (PyStr (root_token cl'), PyList (map PyStr (unseal_keys cl'))),
                  \<lparr>world = cl', logged = [(INFO, ''Vault is initialized'')]\<rparr>)
           \<and> phase cl' = SEALED
           \<and> length (unseal_keys cl') = 3
           \<and> initialize (cluster_client unreachable) 3 2 \<lparr>world = cl', logged = []\<rparr>
               = (Inl AlreadyInitialized, \<lparr>world = cl', logged = []\<rparr>))
   \<and> initialize (cluster_client unreachable) 3 2 \<lparr>world = three_peers, logged = []\<rparr>
       = (Inl AlreadyInitialized, \<lparr>world = three_peers, logged = []\<rparr>)
   \<and> initialize unreachable 3 2 \<lparr>world = blank, logged = []\<rparr>
       = (Inl (RequestException ''connection refused''), \<lparr>world = blank, logged = []\<rparr>)"
proof -
  have un: "phase blank = UNINITIALIZED" by (simp add: blank_def)
  have ini: "phase three_peers \<noteq> UNINITIALIZED" by (simp add: three_peers_def)
  have down: "sys_initialize unreachable 3 2 (world \<lparr>world = blank, logged = []\<rparr>)
                = (Inl (RequestException ''connection refused''), blank)"
    by (simp add: unreachable_def refused_def)
  note a = initialize_exactly_once [where lg = "[]" and ?lg2.0 = "[]" and n = 3 and ?n2.0 = 3
             and ?t2.0 = 2 and t = 2 and rest = unreachable,
             THEN conjunct1, rule_format, OF un]
  note b = initialize_exactly_once [where lg = "[]" and rest = unreachable, THEN conjunct2,
             THEN conjunct1, rule_format, OF ini]
  note d = initialize_exactly_once [THEN conjunct2, THEN conjunct2, rule_format, OF down]
  from a b d show ?thesis by simp
qed

subsection \<open>Raft peers\<close>

lemma scan_peers_member:
  "list_all2 (\<lambda>p i. getitem p ''node_id'' = Inr (PyStr i)) ps ids \<Longrightarrow>
     scan_peers ps x = Inr (x \<in> set ids)"
  by (induction ps ids rule: list_all2_induct) auto

lemma peers_of_config:
  "list_all2 (\<lambda>p i. getitem p ''node_id'' = Inr (PyStr i))
     (map (\<lambda>i. PyDict [(''node_id'', PyStr i)]) ids) ids"
  by (induction ids) simp_all

lemma servers_of_config:
  "getpath (raft_config_of ids) [''data'', ''config'', ''servers'']
     = Inr (PyList (map (\<lambda>i. PyDict [(''node_id'', PyStr i)]) ids))"
  by (simp add: raft_config_of_def)

lemma peers_read:
  assumes "sys_read_raft_config c (world s) = (Inr cfg, w')"
      and "getpath cfg [''data'', ''config'', ''servers''] = Inr (PyList ps)"
      and "list_all2 (\<lambda>p i. getitem p ''node_id'' = Inr (PyStr i)) ps ids"
  shows "is_node_in_raft_peers c x s = (Inr (x \<in> set ids), s\<lparr>world := w'\<rparr>)"
    and "get_num_raft_peers c s = (Inr (int (length ids)), s\<lparr>world := w'\<rparr>)"
proof -
  have rd: "call (sys_read_raft_config c) s = (Inr cfg, s\<lparr>world := w'\<rparr>)"
    using assms(1) by (rule call_eq)
  show "is_node_in_raft_peers c x s = (Inr (x \<in> set ids), s\<lparr>world := w'\<rparr>)"
    using rd assms(2) scan_peers_member [OF assms(3)]
    by (simp add: is_node_in_raft_peers_def del: getpath.simps)
  have "length ps = length ids"
    using assms(3) by (rule list_all2_lengthD)
  then show "get_num_raft_peers c s = (Inr (int (length ids)), s\<lparr>world := w'\<rparr>)"
    using rd assms(2) by (simp add: get_num_raft_peers_def del: getpath.simps)
qed

lemma cluster_peers_read:
  "is_node_in_raft_peers (cluster_client rest) x s = (Inr (x \<in> set (peers (world s))), s)"
  "get_num_raft_peers (cluster_client rest) s = (Inr (int (length (peers (world s)))), s)"
proof -
  have rd: "sys_read_raft_config (cluster_client rest) (world s)
              = (Inr (raft_config_of (peers (world s))), world s)"
    by (simp add: cluster_client_ops cluster_read_raft_config_def)
  show "is_node_in_raft_peers (cluster_client rest) x s = (Inr (x \<in> set (peers (world s))), s)"
    using peers_read(1) [OF rd servers_of_config peers_of_config] by simp
  show "get_num_raft_peers (cluster_client rest) s = (Inr (int (length (peers (world s)))), s)"
    using peers_read(2) [OF rd servers_of_config peers_of_config] by simp
qed

lemma cluster_remove:
  "remove_raft_node (cluster_client rest) node_id \<lparr>world = cl, logged = lg\<rparr>
     = (Inr (), \<lparr>world = cl\<lparr>peers := filter (\<lambda>p. p \<noteq> node_id) (peers cl)\<rparr>,
                 logged = lg @ [(INFO, ''Removed raft node '' @ node_id)]\<rparr>)"
  by (simp add: remove_raft_node_def call_def cluster_client_ops cluster_remove_raft_node_def
        logger_def)

text \<open>
  C4. For any client whose peer-configuration read answers with a list of peers,
  \<open>is_node_in_raft_peers\<close> returns whether the node id given equals the \<open>node_id\<close> of
  one of them (equality of strings, nothing normalized) and \<open>get_num_raft_peers\<close>
  returns their number. Over the cluster modelled from the specification, with the
  peers a, b and c: after \<open>remove_raft_node\<close> of b the configuration read lists a and
  c, \<open>get_num_raft_peers\<close> returns 2 and \<open>is_node_in_raft_peers\<close> of b returns False.
\<close>

theorem raft_peers_after_removal:
  "(sys_read_raft_config c (world s) = (Inr cfg, w') \<and>
      getpath cfg [''data'', ''config'', ''servers''] = Inr (PyList ps) \<and>
      list_all2 (\<lambda>p i. getitem p ''node_id'' = Inr (PyStr i)) ps ids \<longrightarrow>
      is_node_in_raft_peers c x s = (Inr (x \<in> set ids), s\<lparr>world := w'\<rparr>) \<and>
      get_num_raft_peers c s = (Inr (int (length ids)), s\<lparr>world := w'\<rparr>))
   \<and> (peers cl = [''a'', ''b'', ''c''] \<longrightarrow>
      (\<exists>s1. remove_raft_node (cluster_client rest) ''b'' \<lparr>world = cl, logged = lg\<rparr> = (Inr (), s1)
         \<and> peers (world s1) = [''a'', ''c'']
         \<and> sys_read_raft_config (cluster_client rest) (world s1)
             = (Inr (raft_config_of [''a'', ''c'']), world s1)
         \<and> get_num_raft_peers (cluster_client rest) s1 = (Inr 2, s1)
         \<and> is_node_in_raft_peers (cluster_client rest) ''b'' s1 = (Inr False, s1)
         \<and> is_node_in_raft_peers (cluster_client rest) ''a'' s1 = (Inr True, s1)
         \<and> is_node_in_raft_peers (cluster_client rest) ''c'' s1 = (Inr True, s1)))"
proof (intro conjI impI)
  assume h: "sys_read_raft_config c (world s) = (Inr cfg, w') \<and>
      getpath cfg [''data'', ''config'', ''servers''] = Inr (PyList ps) \<and>
      list_all2 (\<lambda>p i. getitem p ''node_id'' = Inr (PyStr i)) ps ids"
  note rd = h [THEN conjunct1]
   and sv = h [THEN conjunct2, THEN conjunct1]
   and nm = h [THEN conjunct2, THEN conjunct2]
  show "is_node_in_raft_peers c x s = (Inr (x \<in> set ids), s\<lparr>world := w'\<rparr>)"
    by (rule peers_read(1) [OF rd sv nm])
  show "get_num_raft_peers c s = (Inr (int (length ids)), s\<lparr>world := w'\<rparr>)"
    by (rule peers_read(2) [OF rd sv nm])
next
  assume abc: "peers cl = [''a'', ''b'', ''c'']"
  let ?s1 = "\<lparr>world = cl\<lparr>peers := filter (\<lambda>p. p \<noteq> ''b'') (peers cl)\<rparr>,
              logged = lg @ [(INFO, ''Removed raft node '' @ ''b'')]\<rparr>"
  have p: "peers (world ?s1) = [''a'', ''c'']"
    using abc by simp
  have "remove_raft_node (cluster_client rest) ''b'' \<lparr>world = cl, logged = lg\<rparr> = (Inr (), ?s1)"
    by (rule cluster_remove)
  moreover have "sys_read_raft_config (cluster_client rest) (world ?s1)
             = (Inr (raft_config_of [''a'', ''c'']), world ?s1)"
    using p by (simp add: cluster_client_ops cluster_read_raft_config_def)
  moreover have "get_num_raft_peers (cluster_client rest) ?s1 = (Inr 2, ?s1)"
    using cluster_peers_read(2) [of rest ?s1] abc by simp
  moreover have "is_node_in_raft_peers (cluster_client rest) ''b'' ?s1 = (Inr False, ?s1)"
    using cluster_peers_read(1) [of rest "''b''" ?s1] abc by simp
  moreover have "is_node_in_raft_peers (cluster_client rest) ''a'' ?s1 = (Inr True, ?s1)"
    using cluster_peers_read(1) [of rest "''a''" ?s1] abc by simp
  moreover have "is_node_in_raft_peers (cluster_client rest) ''c'' ?s1 = (Inr True, ?s1)"
    using cluster_peers_read(1) [of rest "''c''" ?s1] abc by simp
  ultimately show "\<exists>s1. remove_raft_node (cluster_client rest) ''b'' \<lparr>world = cl, logged = lg\<rparr>
             = (Inr (), s1)
         \<and> peers (world s1) = [''a'', ''c'']
         \<and> sys_read_raft_config (cluster_client rest) (world s1)
             = (Inr (raft_config_of [''a'', ''c'']), world s1)
         \<and> get_num_raft_peers (cluster_client rest) s1 = (Inr 2, s1)
         \<and> is_node_in_raft_peers (cluster_client rest) ''b'' s1 = (Inr False, s1)
         \<and> is_node_in_raft_peers (cluster_client rest) ''a'' s1 = (Inr True, s1)
         \<and> is_node_in_raft_peers (cluster_client rest) ''c'' s1 = (Inr True, s1)"
    using p by blast
qed

theorem raft_peers_after_removal_witness:
  "is_node_in_raft_peers (cluster_client unreachable) ''b'' \<lparr>world = three_peers, logged = []\<rparr>
     = (Inr True, \<lparr>world = three_peers, logged = []\<rparr>)
   \<and> is_node_in_raft_peers (cluster_client unreachable) ''B'' \<lparr>world = three_peers, logged = []\<rparr>
     = (Inr False, \<lparr>world = three_peers, logged = []\<rparr>)
   \<and> get_num_raft_peers (cluster_client unreachable) \<lparr>world = three_peers, logged = []\<rparr>
     = (Inr 3, \<lparr>world = three_peers, logged = []\<rparr>)
   \<and> (\<exists>s1. remove_raft_node (cluster_client unreachable) ''b''
             \<lparr>world = three_peers, logged = []\<rparr> = (Inr (), s1)
         \<and> peers (world s1) = [''a'', ''c'']
         \<and> get_num_raft_peers (cluster_client unreachable) s1 = (Inr 2, s1)
         \<and> is_node_in_raft_peers (cluster_client unreachable) ''b'' s1 = (Inr False, s1))"
proof -
  let ?s = "\<lparr>world = three_peers, logged = []\<rparr>"
  let ?ps = "map (\<lambda>i. PyDict [(''node_id'', PyStr i)]) [''a'', ''b'', ''c'']"
  have rd: "sys_read_raft_config (cluster_client unreachable) (world ?s)
              = (Inr (raft_config_of [''a'', ''b'', ''c'']), three_peers) \<and>
            getpath (raft_config_of [''a'', ''b'', ''c'']) [''data'', ''config'', ''servers'']
              = Inr (PyList ?ps) \<and>
            list_all2 (\<lambda>p i. getitem p ''node_id'' = Inr (PyStr i)) ?ps [''a'', ''b'', ''c'']"
    by (simp add: cluster_client_def cluster_read_raft_config_def three_peers_def
          raft_config_of_def)
  have abc: "peers three_peers = [''a'', ''b'', ''c'']"
    by (simp add: three_peers_def)
  note a = raft_peers_after_removal [where x = "''b''", THEN conjunct1, rule_format, OF rd]
  note b = raft_peers_after_removal [where x = "''B''", THEN conjunct1, rule_format, OF rd]
  note d = raft_peers_after_removal [where rest = unreachable and lg = "[]",
             THEN conjunct2, rule_format, OF abc]
  from d obtain s1 where s1:
    "remove_raft_node (cluster_client unreachable) ''b'' ?s = (Inr (), s1)"
    "peers (world s1) = [''a'', ''c'']"
    "get_num_raft_peers (cluster_client unreachable) s1 = (Inr 2, s1)"
    "is_node_in_raft_peers (cluster_client unreachable) ''b'' s1 = (Inr False, s1)"
    by blast
  then have "\<exists>s1. remove_raft_node (cluster_client unreachable) ''b'' ?s = (Inr (), s1)
         \<and> peers (world s1) = [''a'', ''c'']
         \<and> get_num_raft_peers (cluster_client unreachable) s1 = (Inr 2, s1)
         \<and> is_node_in_raft_peers (cluster_client unreachable) ''b'' s1 = (Inr False, s1)"
    by blast
  with a b show ?thesis by simp
qed

text \<open>
  C5, over the cluster modelled from the specification. \<open>remove_raft_node\<close> of a node
  id that is not in the peer list returns normally and leaves the cluster, its peer list
  included, as it was; for a node id that is in the list it returns the same and logs
  the same. For any client, \<open>remove_raft_node\<close> raises exactly when the client's call
  raises, and raises that exception.
\<close>

theorem remove_non_member_succeeds:
  "(node_id \<notin> set (peers cl) \<longrightarrow>
      remove_raft_node (cluster_client rest) node_id \<lparr>world = cl, logged = lg\<rparr>
        = (Inr (), \<lparr>world = cl, logged = lg @ [(INFO, ''Removed raft node '' @ node_id)]\<rparr>))
   \<and> fst (remove_raft_node (cluster_client rest) node_id \<lparr>world = cl, logged = lg\<rparr>) = Inr ()
   \<and> logged (snd (remove_raft_node (cluster_client rest) node_id \<lparr>world = cl, logged = lg\<rparr>))
        = lg @ [(INFO, ''Removed raft node '' @ node_id)]
   \<and> fst (remove_raft_node c node_id s)
        = (case fst (sys_remove_raft_node c node_id (world s)) of
             Inl e \<Rightarrow> Inl e | Inr r \<Rightarrow> Inr ())"
proof (intro conjI impI)
  assume "node_id \<notin> set (peers cl)"
  then have "filter (\<lambda>p. p \<noteq> node_id) (peers cl) = peers cl"
    by (auto simp add: filter_id_conv)
  then show "remove_raft_node (cluster_client rest) node_id \<lparr>world = cl, logged = lg\<rparr>
        = (Inr (), \<lparr>world = cl, logged = lg @ [(INFO, ''Removed raft node '' @ node_id)]\<rparr>)"
    by (simp add: cluster_remove)
next
  show "fst (remove_raft_node (cluster_client rest) node_id \<lparr>world = cl, logged = lg\<rparr>) = Inr ()"
    by (simp add: cluster_remove)
  show "logged (snd (remove_raft_node (cluster_client rest) node_id \<lparr>world = cl, logged = lg\<rparr>))
        = lg @ [(INFO, ''Removed raft node '' @ node_id)]"
    by (simp add: cluster_remove)
  show "fst (remove_raft_node c node_id s)
        = (case fst (sys_remove_raft_node c node_id (world s)) of
             Inl e \<Rightarrow> Inl e | Inr r \<Rightarrow> Inr ())"
    by (simp add: remove_raft_node_def call_def split: prod.splits sum.splits)
qed

theorem remove_non_member_succeeds_witness:
  "remove_raft_node (cluster_client unreachable) ''d'' \<lparr>world = three_peers, logged = []\<rparr>
     = (Inr (), \<lparr>world = three_peers, logged = [(INFO, ''Removed raft node d'')]\<rparr>)
   \<and> peers three_peers = [''a'', ''b'', ''c'']
   \<and> fst (remove_raft_node unreachable ''d'' \<lparr>world = three_peers, logged = []\<rparr>)
       = Inl (RequestException ''connection refused'')"
proof -
  have nm: "''d'' \<notin> set (peers three_peers)"
    by (simp add: three_peers_def)
  note a = remove_non_member_succeeds [where rest = unreachable and lg = "[]",
             THEN conjunct1, rule_format, OF nm]
  note b = remove_non_member_succeeds [where c = unreachable and node_id = "''d''"
             and s = "\<lparr>world = three_peers, logged = []\<rparr>",
             THEN conjunct2, THEN conjunct2, THEN conjunct2]
  from a b show ?thesis
    by (simp add: three_peers_def unreachable_def refused_def)
qed

subsection \<open>Enabling what is already enabled\<close>

lemma enable_audit_device_rejected:
  "sys_enable_audit_device c (AuditDeviceType_value device_type) [(''file_path'', path)] (world s)
     = (Inl (InvalidRequest m), w') \<Longrightarrow>
   enable_audit_device c device_type path s
     = (Inr (), \<lparr>world = w', logged = logged s @ [(INFO, ''Audit device already enabled.'')]\<rparr>)"
  by (simp add: enable_audit_device_def call_def logger_def)

lemma enable_approle_rejected:
  "sys_enable_auth_method c ''approle'' (world s) = (Inl (InvalidRequest m), w') \<Longrightarrow>
   enable_approle_auth_method c s
     = (Inr (), \<lparr>world = w', logged = logged s @ [(INFO, ''Approle already enabled.'')]\<rparr>)"
  by (simp add: enable_approle_auth_method_def call_def logger_def)

lemma enable_secrets_engine_rejected:
  "sys_enable_secrets_engine c (SecretsBackend_value backend_type)
       (''Charm created '' @ [CHR 0x27] @ SecretsBackend_value backend_type
          @ [CHR 0x27] @ '' backend'') path (world s)
     = (Inl (InvalidRequest m), w') \<Longrightarrow>
   enable_secrets_engine c backend_type path s
     = (Inr (), \<lparr>world = w', logged = logged s @
          [(INFO, SecretsBackend_value backend_type @ '' backend already enabled'')]\<rparr>)"
  by (simp add: enable_secrets_engine_def call_def logger_def)

lemma count_list_le_one:
  "count_list xs x \<le> 1 \<Longrightarrow> x \<in> set xs \<Longrightarrow> count_list xs x = 1"
  by (metis count_list_0_iff le_neq_implies_less less_one)

lemma count_list_fresh: "x \<notin> set xs \<Longrightarrow> count_list (xs @ [x]) x = 1"
  by (simp add: count_list_0_iff)

lemma engines_at_mounted:
  "engines_at path cl \<le> 1 \<Longrightarrow> path \<in> set (map fst (secrets_engines cl)) \<Longrightarrow>
     engines_at path cl = 1"
proof -
  assume le: "engines_at path cl \<le> 1" and m: "path \<in> set (map fst (secrets_engines cl))"
  from m have "filter (\<lambda>e. fst e = path) (secrets_engines cl) \<noteq> []"
    by (auto simp add: filter_empty_conv)
  then have "engines_at path cl \<noteq> 0"
    by (simp add: engines_at_def)
  with le show ?thesis by simp
qed

lemma engines_at_fresh:
  "path \<notin> set (map fst (secrets_engines cl)) \<Longrightarrow>
     engines_at path (cl\<lparr>secrets_engines := secrets_engines cl @ [(path, b)]\<rparr>) = 1"
proof -
  assume "path \<notin> set (map fst (secrets_engines cl))"
  then have "filter (\<lambda>e. fst e = path) (secrets_engines cl) = []"
    by (auto simp add: filter_empty_conv)
  then show ?thesis by (simp add: engines_at_def)
qed

lemma audit_twice:
  assumes "count_list (audit_devices cl) (AuditDeviceType_value d, [(''file_path'', path)]) \<le> 1"
  shows "\<exists>s1 s2. enable_audit_device (cluster_client rest) d path \<lparr>world = cl, logged = lg\<rparr>
             = (Inr (), s1)
         \<and> enable_audit_device (cluster_client rest) d path s1 = (Inr (), s2)
         \<and> world s2 = world s1
         \<and> logged s2 = logged s1 @ [(INFO, ''Audit device already enabled.'')]
         \<and> count_list (audit_devices (world s2))
             (AuditDeviceType_value d, [(''file_path'', path)]) = 1"
proof -
  let ?k = "(AuditDeviceType_value d, [(''file_path'', path)])"
  let ?s = "\<lparr>world = cl, logged = lg\<rparr>"
  obtain s1 where s1: "enable_audit_device (cluster_client rest) d path ?s = (Inr (), s1)"
    and in1: "?k \<in> set (audit_devices (world s1))"
    and c1: "count_list (audit_devices (world s1)) ?k = 1"
  proof (cases "?k \<in> set (audit_devices cl)")
    case True
    then have "enable_audit_device (cluster_client rest) d path ?s
        = (Inr (), \<lparr>world = cl, logged = lg @ [(INFO, ''Audit device already enabled.'')]\<rparr>)"
      by (simp add: enable_audit_device_def call_def logger_def cluster_client_ops
            cluster_enable_audit_device_def AlreadyEnabled_def)
    with True assms that show ?thesis
      by (simp add: count_list_le_one)
  next
    case False
    then have "enable_audit_device (cluster_client rest) d path ?s
        = (Inr (), \<lparr>world = cl\<lparr>audit_devices := audit_devices cl @ [?k]\<rparr>,
                    logged = lg @ [(INFO, ''Enabled audit device '' @ AuditDeviceType_value d
                                          @ '' for path '' @ path)]\<rparr>)"
      by (simp add: enable_audit_device_def call_def logger_def cluster_client_ops
            cluster_enable_audit_device_def)
    with False that show ?thesis
      by (simp add: count_list_fresh)
  qed
  have rej: "sys_enable_audit_device (cluster_client rest) (AuditDeviceType_value d)
               [(''file_path'', path)] (world s1)
             = (Inl (InvalidRequest ''path is already in use''), world s1)"
    using in1 by (simp add: cluster_client_ops cluster_enable_audit_device_def AlreadyEnabled_def)
  from enable_audit_device_rejected [OF rej] s1 c1 show ?thesis
    by simp
qed

lemma approle_twice:
  assumes "count_list (auth_methods cl) ''approle'' \<le> 1"
  shows "\<exists>s1 s2. enable_approle_auth_method (cluster_client rest) \<lparr>world = cl, logged = lg\<rparr>
             = (Inr (), s1)
         \<and> enable_approle_auth_method (cluster_client rest) s1 = (Inr (), s2)
         \<and> world s2 = world s1
         \<and> logged s2 = logged s1 @ [(INFO, ''Approle already enabled.'')]
         \<and> count_list (auth_methods (world s2)) ''approle'' = 1"
proof -
  let ?s = "\<lparr>world = cl, logged = lg\<rparr>"
  obtain s1 where s1: "enable_approle_auth_method (cluster_client rest) ?s = (Inr (), s1)"
    and in1: "''approle'' \<in> set (auth_methods (world s1))"
    and c1: "count_list (auth_methods (world s1)) ''approle'' = 1"
  proof (cases "''approle'' \<in> set (auth_methods cl)")
    case True
    then have "enable_approle_auth_method (cluster_client rest) ?s
        = (Inr (), \<lparr>world = cl, logged = lg @ [(INFO, ''Approle already enabled.'')]\<rparr>)"
      by (simp add: enable_approle_auth_method_def call_def logger_def cluster_client_ops
            cluster_enable_auth_method_def AlreadyEnabled_def)
    with True assms that show ?thesis
      by (simp add: count_list_le_one)
  next
    case False
    then have "enable_approle_auth_method (cluster_client rest) ?s
        = (Inr (), \<lparr>world = cl\<lparr>auth_methods := auth_methods cl @ [''approle'']\<rparr>,
                    logged = lg @ [(INFO, ''Enabled approle auth method.'')]\<rparr>)"
      by (simp add: enable_approle_auth_method_def call_def logger_def cluster_client_ops
            cluster_enable_auth_method_def)
    with False that show ?thesis
      by (simp add: count_list_fresh)
  qed
  have rej: "sys_enable_auth_method (cluster_client rest) ''approle'' (world s1)
             = (Inl (InvalidRequest ''path is already in use''), world s1)"
    using in1 by (simp add: cluster_client_ops cluster_enable_auth_method_def AlreadyEnabled_def)
  from enable_approle_rejected [OF rej] s1 c1 show ?thesis
    by simp
qed

lemma engine_twice:
  assumes "engines_at path cl \<le> 1"
  shows "\<exists>s1 s2. enable_secrets_engine (cluster_client rest) b path \<lparr>world = cl, logged = lg\<rparr>
             = (Inr (), s1)
         \<and> enable_secrets_engine (cluster_client rest) b path s1 = (Inr (), s2)
         \<and> world s2 = world s1
         \<and> logged s2 = logged s1
              @ [(INFO, SecretsBackend_value b @ '' backend already enabled'')]
         \<and> engines_at path (world s2) = 1"
proof -
  let ?s = "\<lparr>world = cl, logged = lg\<rparr>"
  obtain s1 where s1: "enable_secrets_engine (cluster_client rest) b path ?s = (Inr (), s1)"
    and in1: "path \<in> set (map fst (secrets_engines (world s1)))"
    and c1: "engines_at path (world s1) = 1"
  proof (cases "path \<in> set (map fst (secrets_engines cl))")
    case True
    then have "enable_secrets_engine (cluster_client rest) b path ?s
        = (Inr (), \<lparr>world = cl, logged = lg
             @ [(INFO, SecretsBackend_value b @ '' backend already enabled'')]\<rparr>)"
      by (simp add: enable_secrets_engine_def call_def logger_def cluster_client_ops
            cluster_enable_secrets_engine_def AlreadyEnabled_def)
    with True assms that show ?thesis
      by (simp add: engines_at_mounted)
  next
    case False
    then have "enable_secrets_engine (cluster_client rest) b path ?s
        = (Inr (), \<lparr>world = cl\<lparr>secrets_engines := secrets_engines cl
                                   @ [(path, SecretsBackend_value b)]\<rparr>,
                    logged = lg @ [(INFO, ''Enabled '' @ SecretsBackend_value b @ '' backend'')]\<rparr>)"
      by (simp add: enable_secrets_engine_def call_def logger_def cluster_client_ops
            cluster_enable_secrets_engine_def)
    with False that show ?thesis
      by (simp add: engines_at_fresh)
  qed
  have rej: "sys_enable_secrets_engine (cluster_client rest) (SecretsBackend_value b)
               (''Charm created '' @ [CHR 0x27] @ SecretsBackend_value b
                  @ [CHR 0x27] @ '' backend'') path (world s1)
             = (Inl (InvalidRequest ''path is already in use''), world s1)"
    using in1
    by (simp add: cluster_client_ops cluster_enable_secrets_engine_def AlreadyEnabled_def)
  from enable_secrets_engine_rejected [OF rej] s1 c1 show ?thesis
    by simp
qed

text \<open>
  C6. For any client, when the cluster rejects the request to enable (the client raises
  \<open>InvalidRequest\<close>), \<open>enable_audit_device\<close>, \<open>enable_approle_auth_method\<close> and
  \<open>enable_secrets_engine\<close> log that the resource is already enabled and return
  normally. Over the cluster modelled from the specification, from any state in which
  the resource is enabled at most once: the call and a second call both return normally,
  the second leaves the cluster as the first left it and logs that the resource is
  already enabled, and exactly one resource is enabled at the path.
\<close>

theorem enabling_twice_is_idempotent:
  "(sys_enable_audit_device c (AuditDeviceType_value d) [(''file_path'', path)] (world s)
       = (Inl (InvalidRequest m), w') \<longrightarrow>
     enable_audit_device c d path s
       = (Inr (), \<lparr>world = w', logged = logged s @ [(INFO, ''Audit device already enabled.'')]\<rparr>))
   \<and> (sys_enable_auth_method c ''approle'' (world s) = (Inl (InvalidRequest m), w') \<longrightarrow>
     enable_approle_auth_method c s
       = (Inr (), \<lparr>world = w', logged = logged s @ [(INFO, ''Approle already enabled.'')]\<rparr>))
   \<and> (sys_enable_secrets_engine c (SecretsBackend_value b)
         (''Charm created '' @ [CHR 0x27] @ SecretsBackend_value b @ [CHR 0x27] @ '' backend'')
         path (world s) = (Inl (InvalidRequest m), w') \<longrightarrow>
     enable_secrets_engine c b path s
       = (Inr (), \<lparr>world = w', logged = logged s @
            [(INFO, SecretsBackend_value b @ '' backend already enabled'')]\<rparr>))
   \<and> (count_list (audit_devices cl) (AuditDeviceType_value d, [(''file_path'', path)]) \<le> 1 \<longrightarrow>
       (\<exists>s1 s2. enable_audit_device (cluster_client rest) d path \<lparr>world = cl, logged = lg\<rparr>
             = (Inr (), s1)
         \<and> enable_audit_device (cluster_client rest) d path s1 = (Inr (), s2)
         \<and> world s2 = world s1
         \<and> logged s2 = logged s1 @ [(INFO, ''Audit device already enabled.'')]
         \<and> count_list (audit_devices (world s2))
             (AuditDeviceType_value d, [(''file_path'', path)]) = 1))
   \<and> (count_list (auth_methods cl) ''approle'' \<le> 1 \<longrightarrow>
       (\<exists>s1 s2. enable_approle_auth_method (cluster_client rest) \<lparr>world = cl, logged = lg\<rparr>
             = (Inr (), s1)
         \<and> enable_approle_auth_method (cluster_client rest) s1 = (Inr (), s2)
         \<and> world s2 = world s1
         \<and> logged s2 = logged s1 @ [(INFO, ''Approle already enabled.'')]
         \<and> count_list (auth_methods (world s2)) ''approle'' = 1))
   \<and> (engines_at path cl \<le> 1 \<longrightarrow>
       (\<exists>s1 s2. enable_secrets_engine (cluster_client rest) b path \<lparr>world = cl, logged = lg\<rparr>
             = (Inr (), s1)
         \<and> enable_secrets_engine (cluster_client rest) b path s1 = (Inr (), s2)
         \<and> world s2 = world s1
         \<and> logged s2 = logged s1
              @ [(INFO, SecretsBackend_value b @ '' backend already enabled'')]
         \<and> engines_at path (world s2) = 1))"
  by (intro conjI impI enable_audit_device_rejected enable_approle_rejected
        enable_secrets_engine_rejected audit_twice approle_twice engine_twice)

theorem enabling_twice_is_idempotent_witness:
  "enable_audit_device (cluster_client unreachable) FILE ''stdout'' \<lparr>world = configured, logged = []\<rparr>
     = (Inr (), \<lparr>world = configured, logged = [(INFO, ''Audit device already enabled.'')]\<rparr>)
   \<and> enable_approle_auth_method (cluster_client unreachable) \<lparr>world = configured, logged = []\<rparr>
     = (Inr (), \<lparr>world = configured, logged = [(INFO, ''Approle already enabled.'')]\<rparr>)
   \<and> enable_secrets_engine (cluster_client unreachable) PKI ''charm-pki''
       \<lparr>world = configured, logged = []\<rparr>
     = (Inr (), \<lparr>world = configured, logged = [(INFO, ''pki backend already enabled'')]\<rparr>)
   \<and> (\<exists>s1 s2. enable_audit_device (cluster_client unreachable) SYSLOG ''log''
                 \<lparr>world = three_peers, logged = []\<rparr> = (Inr (), s1)
         \<and> enable_audit_device (cluster_client unreachable) SYSLOG ''log'' s1 = (Inr (), s2)
         \<and> world s2 = world s1
         \<and> count_list (audit_devices (world s2)) (''syslog'', [(''file_path'', ''log'')]) = 1)
   \<and> (\<exists>s1 s2. enable_approle_auth_method (cluster_client unreachable)
                 \<lparr>world = three_peers, logged = []\<rparr> = (Inr (), s1)
         \<and> enable_approle_auth_method (cluster_client unreachable) s1 = (Inr (), s2)
         \<and> world s2 = world s1
         \<and> count_list (auth_methods (world s2)) ''approle'' = 1)
   \<and> (\<exists>s1 s2. enable_secrets_engine (cluster_client unreachable) KV_V2 ''charm-kv''
                 \<lparr>world = three_peers, logged = []\<rparr> = (Inr (), s1)
         \<and> enable_secrets_engine (cluster_client unreachable) KV_V2 ''charm-kv'' s1 = (Inr (), s2)
         \<and> world s2 = world s1
         \<and> engines_at ''charm-kv'' (world s2) = 1)"
proof -
  let ?s = "\<lparr>world = configured, logged = []\<rparr>"
  have ra: "sys_enable_audit_device (cluster_client unreachable) (AuditDeviceType_value FILE)
              [(''file_path'', ''stdout'')] (world ?s)
            = (Inl (InvalidRequest ''path is already in use''), configured)"
    by (simp add: cluster_client_def cluster_enable_audit_device_def AlreadyEnabled_def
          configured_def)
  have rm: "sys_enable_auth_method (cluster_client unreachable) ''approle'' (world ?s)
            = (Inl (InvalidRequest ''path is already in use''), configured)"
    by (simp add: cluster_client_def cluster_enable_auth_method_def AlreadyEnabled_def
          configured_def)
  have re: "sys_enable_secrets_engine (cluster_client unreachable) (SecretsBackend_value PKI)
              (''Charm created '' @ [CHR 0x27] @ SecretsBackend_value PKI @ [CHR 0x27]
                 @ '' backend'') ''charm-pki'' (world ?s)
            = (Inl (InvalidRequest ''path is already in use''), configured)"
    by (simp add: cluster_client_def cluster_enable_secrets_engine_def AlreadyEnabled_def
          configured_def)
  have ca: "count_list (audit_devices three_peers)
              (AuditDeviceType_value SYSLOG, [(''file_path'', ''log'')]) \<le> 1"
    by (simp add: three_peers_def)
  have cm: "count_list (auth_methods three_peers) ''approle'' \<le> 1"
    by (simp add: three_peers_def)
  have ce: "engines_at ''charm-kv'' three_peers \<le> 1"
    by (simp add: three_peers_def engines_at_def)
  note g1 = enabling_twice_is_idempotent [THEN conjunct1, rule_format, OF ra]
  note g2 = enabling_twice_is_idempotent
              [THEN conjunct2, THEN conjunct1, rule_format, OF rm]
  note g3 = enabling_twice_is_idempotent
              [THEN conjunct2, THEN conjunct2, THEN conjunct1, rule_format, OF re]
  note k1 = enabling_twice_is_idempotent
              [where rest = unreachable and lg = "[]",
               THEN conjunct2, THEN conjunct2, THEN conjunct2, THEN conjunct1,
               rule_format, OF ca]
  note k2 = enabling_twice_is_idempotent
              [where rest = unreachable and lg = "[]",
               THEN conjunct2, THEN conjunct2, THEN conjunct2, THEN conjunct2, THEN conjunct1,
               rule_format, OF cm]
  note k3 = enabling_twice_is_idempotent
              [where rest = unreachable and lg = "[]" and b = KV_V2,
               THEN conjunct2, THEN conjunct2, THEN conjunct2, THEN conjunct2, THEN conjunct2,
               rule_format, OF ce]
  from k1 have k1': "\<exists>s1 s2. enable_audit_device (cluster_client unreachable) SYSLOG ''log''
                 \<lparr>world = three_peers, logged = []\<rparr> = (Inr (), s1)
         \<and> enable_audit_device (cluster_client unreachable) SYSLOG ''log'' s1 = (Inr (), s2)
         \<and> world s2 = world s1
         \<and> count_list (audit_devices (world s2)) (''syslog'', [(''file_path'', ''log'')]) = 1"
    by auto
  from k2 have k2': "\<exists>s1 s2. enable_approle_auth_method (cluster_client unreachable)
                 \<lparr>world = three_peers, logged = []\<rparr> = (Inr (), s1)
         \<and> enable_approle_auth_method (cluster_client unreachable) s1 = (Inr (), s2)
         \<and> world s2 = world s1
         \<and> count_list (auth_methods (world s2)) ''approle'' = 1"
    by auto
  from k3 have k3': "\<exists>s1 s2. enable_secrets_engine (cluster_client unreachable) KV_V2 ''charm-kv''
                 \<lparr>world = three_peers, logged = []\<rparr> = (Inr (), s1)
         \<and> enable_secrets_engine (cluster_client unreachable) KV_V2 ''charm-kv'' s1 = (Inr (), s2)
         \<and> world s2 = world s1
         \<and> engines_at ''charm-kv'' (world s2) = 1"
    by auto
  from g1 g2 g3 have g: "enable_audit_device (cluster_client unreachable) FILE ''stdout'' ?s
     = (Inr (), \<lparr>world = configured, logged = [(INFO, ''Audit device already enabled.'')]\<rparr>)
   \<and> enable_approle_auth_method (cluster_client unreachable) ?s
     = (Inr (), \<lparr>world = configured, logged = [(INFO, ''Approle already enabled.'')]\<rparr>)
   \<and> enable_secrets_engine (cluster_client unreachable) PKI ''charm-pki'' ?s
     = (Inr (), \<lparr>world = configured, logged = [(INFO, ''pki backend already enabled'')]\<rparr>)"
    by simp
  from g k1' k2' k3' show ?thesis by blast
qed

subsection \<open>Snapshots\<close>

lemma restore_snapshot_trace:
  "trace (snd (restore_snapshot (recording c) snapshot t))
     = trace t @ [ForceRestoreRaftSnapshot snapshot]"
proof -
  obtain r t1 where run: "call (record_call (ForceRestoreRaftSnapshot snapshot)
                            (sys_force_restore_raft_snapshot c snapshot)) t = (r, t1)"
    by (cases "call (record_call (ForceRestoreRaftSnapshot snapshot)
                            (sys_force_restore_raft_snapshot c snapshot)) t")
  from trace_call_recorded [OF run] run show ?thesis
    by (simp add: restore_snapshot_def recording_def)
qed

text \<open>
  C9. For any client, the one call \<open>restore_snapshot\<close> makes is the forced restore of
  the snapshot given, and what that call returns or raises is what \<open>restore_snapshot\<close>
  returns or raises. Over the cluster modelled from the specification: the snapshot
  \<open>create_snapshot\<close> returns holds the stored data, and \<open>restore_snapshot\<close> of it
  succeeds in any state of the cluster, whatever its unseal keys are by then, puts the
  data back and leaves the unseal keys as they are.
\<close>

theorem restore_snapshot_is_forced:
  "trace (snd (restore_snapshot (recording c) snapshot t))
     = trace t @ [ForceRestoreRaftSnapshot snapshot]
   \<and> fst (restore_snapshot c snapshot s)
     = fst (sys_force_restore_raft_snapshot c snapshot (world s))
   \<and> (\<exists>r r'. create_snapshot (cluster_client rest) \<lparr>world = cl, logged = lg\<rparr>
                = (Inr r, \<lparr>world = cl, logged = lg\<rparr>)
        \<and> content r = storage cl
        \<and> restore_snapshot (cluster_client rest) (content r) \<lparr>world = cl', logged = lg'\<rparr>
            = (Inr r', \<lparr>world = cl'\<lparr>storage := storage cl\<rparr>, logged = lg'\<rparr>)
        \<and> unseal_keys (cl'\<lparr>storage := storage cl\<rparr>) = unseal_keys cl')"
proof (intro conjI)
  show "trace (snd (restore_snapshot (recording c) snapshot t))
     = trace t @ [ForceRestoreRaftSnapshot snapshot]"
    by (rule restore_snapshot_trace)
  show "fst (restore_snapshot c snapshot s)
     = fst (sys_force_restore_raft_snapshot c snapshot (world s))"
    by (simp add: restore_snapshot_def call_def split: prod.splits)
  show "\<exists>r r'. create_snapshot (cluster_client rest) \<lparr>world = cl, logged = lg\<rparr>
                = (Inr r, \<lparr>world = cl, logged = lg\<rparr>)
        \<and> content r = storage cl
        \<and> restore_snapshot (cluster_client rest) (content r) \<lparr>world = cl', logged = lg'\<rparr>
            = (Inr r', \<lparr>world = cl'\<lparr>storage := storage cl\<rparr>, logged = lg'\<rparr>)
        \<and> unseal_keys (cl'\<lparr>storage := storage cl\<rparr>) = unseal_keys cl'"
    by (simp add: create_snapshot_def restore_snapshot_def call_def cluster_client_ops
          cluster_take_raft_snapshot_def cluster_force_restore_raft_snapshot_def)
qed

theorem restore_snapshot_is_forced_witness:
  "unseal_keys rekeyed \<noteq> unseal_keys three_peers
   \<and> storage rekeyed \<noteq> storage three_peers
   \<and> (\<exists>r r'. create_snapshot (cluster_client unreachable) \<lparr>world = three_peers, logged = []\<rparr>
                = (Inr r, \<lparr>world = three_peers, logged = []\<rparr>)
        \<and> content r = ''stored-data''
        \<and> restore_snapshot (cluster_client unreachable) (content r)
              \<lparr>world = rekeyed, logged = []\<rparr>
            = (Inr r', \<lparr>world = rekeyed\<lparr>storage := ''stored-data''\<rparr>, logged = []\<rparr>))
   \<and> unseal_keys (rekeyed\<lparr>storage := ''stored-data''\<rparr>) = [''k2'']
   \<and> trace (snd (restore_snapshot (recording (cluster_client unreachable)) ''stored-data''
               \<lparr>world = (rekeyed, []), logged = []\<rparr>))
       = [ForceRestoreRaftSnapshot ''stored-data'']"
proof -
  have st: "storage three_peers = ''stored-data''"
    by (simp add: three_peers_def)
  have diff: "unseal_keys rekeyed \<noteq> unseal_keys three_peers
              \<and> storage rekeyed \<noteq> storage three_peers
              \<and> unseal_keys (rekeyed\<lparr>storage := ''stored-data''\<rparr>) = [''k2'']"
    by (simp add: rekeyed_def three_peers_def)
  note a = restore_snapshot_is_forced
             [where rest = unreachable and cl = three_peers and cl' = rekeyed
                and lg = "[]" and lg' = "[]", THEN conjunct2, THEN conjunct2, unfolded st]
  note b = restore_snapshot_is_forced
             [where c = "cluster_client unreachable" and snapshot = "''stored-data''"
                and t = "\<lparr>world = (rekeyed, []), logged = []\<rparr>", THEN conjunct1]
  from a have a': "\<exists>r r'. create_snapshot (cluster_client unreachable)
                  \<lparr>world = three_peers, logged = []\<rparr>
                = (Inr r, \<lparr>world = three_peers, logged = []\<rparr>)
        \<and> content r = ''stored-data''
        \<and> restore_snapshot (cluster_client unreachable) (content r)
              \<lparr>world = rekeyed, logged = []\<rparr>
            = (Inr r', \<lparr>world = rekeyed\<lparr>storage := ''stored-data''\<rparr>, logged = []\<rparr>)"
    by blast
  from b have b': "trace (snd (restore_snapshot (recording (cluster_client unreachable))
               ''stored-data'' \<lparr>world = (rekeyed, []), logged = []\<rparr>))
       = [ForceRestoreRaftSnapshot ''stored-data'']"
    by (simp add: trace_def)
  from diff a' b' show ?thesis by blast
qed

end
